theory Spec2Isabelle
  imports Main "HOL-Library.Word"
begin

unbundle bit_operations_syntax

section \<open>The update manifest generator of AirDB (scripts/generate_manifest.py)\<close>

text \<open>
  The script has three functions: \<open>calculate_sha256\<close> hashes a file in chunks of 4096
  bytes, \<open>find_artifacts\<close> (the Artifact Locator) globs a bundle directory for the
  artifacts of three platforms, and \<open>generate_manifest\<close> (the Manifest Assembler) builds
  the manifest dictionary. \<open>main\<close> parses the command line and writes the manifest.

  What the script obtains from its environment is made explicit: the bytes of a file, the
  answers of \<open>Path.glob\<close>, whether the bundle directory exists, the current UTC date and
  whether the output file can be opened for writing. Exceptions are values of \<open>error\<close>.
\<close>

subsection \<open>hashlib.sha256\<close>

text \<open>
  The hash object of the Python standard library, following FIPS 180-4: eight 32-bit
  state words, the bytes that do not fill a 64-byte block yet, and the number of bytes
  fed so far. \<open>update\<close> compresses every complete block; \<open>hexdigest\<close> pads what is
  left and prints the state words in lower-case hexadecimal.
\<close>

type_synonym byte = "8 word"
type_synonym w32 = "32 word"

definition ch :: "w32 \<Rightarrow> w32 \<Rightarrow> w32 \<Rightarrow> w32" where
  "ch x y z = (x AND y) XOR (NOT x AND z)"

definition maj :: "w32 \<Rightarrow> w32 \<Rightarrow> w32 \<Rightarrow> w32" where
  "maj x y z = (x AND y) XOR (x AND z) XOR (y AND z)"

definition rotr :: "nat \<Rightarrow> w32 \<Rightarrow> w32" where
  "rotr n x = drop_bit n x OR push_bit (32 - n) x"

definition big_sigma0 :: "w32 \<Rightarrow> w32" where
  "big_sigma0 x = rotr 2 x XOR rotr 13 x XOR rotr 22 x"

definition big_sigma1 :: "w32 \<Rightarrow> w32" where
  "big_sigma1 x = rotr 6 x XOR rotr 11 x XOR rotr 25 x"

definition small_sigma0 :: "w32 \<Rightarrow> w32" where
  "small_sigma0 x = rotr 7 x XOR rotr 18 x XOR drop_bit 3 x"

definition small_sigma1 :: "w32 \<Rightarrow> w32" where
  "small_sigma1 x = rotr 17 x XOR rotr 19 x XOR drop_bit 10 x"

text \<open>
  The constants of the standard are fractional parts of roots of the first primes: the
  first 32 bits of the fractional part of the cube root of each of the first 64 primes
  are the round constants, and those of the square root of each of the first 8 primes are
  the initial state.
\<close>

text \<open>The sieve of Eratosthenes: the head is prime, its multiples are struck out.\<close>

fun sieve :: "int list \<Rightarrow> int list" where
  "sieve [] = []"
| "sieve (p # xs) = p # sieve (filter (\<lambda>x. x mod p \<noteq> 0) xs)"

definition first_primes :: "nat \<Rightarrow> int list" where
  "first_primes k = take k (sieve [2..311])"

text \<open>The largest \<open>r\<close> below \<open>2 ^ bits\<close> with \<open>r ^ k \<le> n\<close>, found bit by bit.\<close>

fun root_search :: "nat \<Rightarrow> int \<Rightarrow> nat \<Rightarrow> int \<Rightarrow> int" where
  "root_search k n 0 r = r"
| "root_search k n (Suc bits) r =
     (if (r + 2 ^ bits) ^ k \<le> n then root_search k n bits (r + 2 ^ bits)
      else root_search k n bits r)"

text \<open>
  The first 32 bits of the fractional part of the \<open>k\<close>-th root of \<open>p\<close>: the integer
  part of the root of \<open>p * 2 ^ (32 * k)\<close>, modulo \<open>2 ^ 32\<close>.
\<close>

definition fractional_root :: "nat \<Rightarrow> int \<Rightarrow> w32" where
  "fractional_root k p = word_of_int (root_search k (p * 2 ^ (32 * k)) 36 0)"

definition round_constants :: "w32 list" where
  "round_constants = map (fractional_root 3) (first_primes 64)"

definition initial_hash :: "w32 list" where
  "initial_hash = map (fractional_root 2) (first_primes 8)"

text \<open>The sixteen big-endian words of a block.\<close>

fun be_words :: "byte list \<Rightarrow> w32 list" where
  "be_words (a # b # c # d # rest) =
     (push_bit 24 (ucast a) OR push_bit 16 (ucast b) OR push_bit 8 (ucast c) OR ucast d)
       # be_words rest"
| "be_words _ = []"

text \<open>The message schedule: \<open>schedule 48\<close> extends the sixteen words of a block to 64.\<close>

fun schedule :: "nat \<Rightarrow> w32 list \<Rightarrow> w32 list" where
  "schedule 0 ws = ws"
| "schedule (Suc k) ws =
     (let n = length ws
      in schedule k (ws @ [small_sigma1 (ws ! (n - 2)) + ws ! (n - 7)
                           + small_sigma0 (ws ! (n - 15)) + ws ! (n - 16)]))"

fun sha_round :: "w32 list \<Rightarrow> w32 \<times> w32 \<Rightarrow> w32 list" where
  "sha_round [a, b, c, d, e, f, g, h] (k, w) =
     (let t1 = h + big_sigma1 e + ch e f g + k + w;
          t2 = big_sigma0 a + maj a b c
      in [t1 + t2, a, b, c, d + t1, e, f, g])"
| "sha_round vs _ = vs"

definition compress :: "w32 list \<Rightarrow> byte list \<Rightarrow> w32 list" where
  "compress hs block =
     map2 (+) hs (foldl sha_round hs (zip round_constants (schedule 48 (be_words block))))"

text \<open>Compress the complete 64-byte blocks at the front; return the state and the rest.\<close>

function absorb :: "w32 list \<Rightarrow> byte list \<Rightarrow> w32 list \<times> byte list" where
  "absorb hs bs =
     (if length bs < 64 then (hs, bs)
      else absorb (compress hs (take 64 bs)) (drop 64 bs))"
  by pat_completeness auto
termination
  by (relation "measure (\<lambda>(hs, bs). length bs)") auto

declare absorb.simps [simp del]

definition be64 :: "nat \<Rightarrow> byte list" where
  "be64 n = map (\<lambda>i. ucast (drop_bit (8 * i) (word_of_nat n :: 64 word))) [7, 6, 5, 4, 3, 2, 1, 0]"

text \<open>
  The padding of a message of \<open>len\<close> bytes: the byte 0x80, zero bytes up to 56 modulo 64,
  and the length in bits as a 64-bit big-endian number.
\<close>

definition padding :: "nat \<Rightarrow> byte list" where
  "padding len = 0x80 # replicate ((119 - len mod 64) mod 64) 0 @ be64 (8 * len)"

definition hex_digit :: "nat \<Rightarrow> char" where
  "hex_digit n = ''0123456789abcdef'' ! n"

definition hex_word :: "w32 \<Rightarrow> string" where
  "hex_word x = map (\<lambda>i. hex_digit (unat (drop_bit (4 * i) x AND 15))) [7, 6, 5, 4, 3, 2, 1, 0]"

record sha256_obj =
  state :: "w32 list"
  pending :: "byte list"
  fed :: nat

definition sha256_new :: sha256_obj where
  "sha256_new = \<lparr>state = initial_hash, pending = [], fed = 0\<rparr>"

definition sha256_update :: "sha256_obj \<Rightarrow> byte list \<Rightarrow> sha256_obj" where
  "sha256_update h chunk =
     (case absorb (state h) (pending h @ chunk) of
        (hs, rest) \<Rightarrow> \<lparr>state = hs, pending = rest, fed = fed h + length chunk\<rparr>)"

definition sha256_hexdigest :: "sha256_obj \<Rightarrow> string" where
  "sha256_hexdigest h =
     concat (map hex_word (fst (absorb (state h) (pending h @ padding (fed h)))))"

text \<open>
  The digest the specification speaks of: SHA-256 over the full content, the whole
  message padded and hashed in one go, as a lower-case hexadecimal string.
\<close>

definition whole_content_sha256 :: "byte list \<Rightarrow> string" where
  "whole_content_sha256 content =
     concat (map hex_word (fst (absorb initial_hash (content @ padding (length content)))))"

subsection \<open>Files, paths and errors\<close>

datatype error = UsageError | OSError | ValueError

text \<open>
  A path yielded by \<open>Path.glob\<close>, with what the file system holds there: \<open>name\<close> is
  the final path component (\<open>file.name\<close>), \<open>data\<close> the bytes of the regular file, or
  \<open>None\<close> where \<open>open\<close> fails (a directory of that name, a file that vanished or
  cannot be read).
\<close>

record file_path =
  name :: string
  data :: "byte list option"

text \<open>\<open>str.rfind\<close>: the index of the last occurrence (\<open>None\<close> for Python's -1).\<close>

fun rfind :: "char \<Rightarrow> string \<Rightarrow> nat option" where
  "rfind c [] = None"
| "rfind c (x # xs) =
     (case rfind c xs of
        Some i \<Rightarrow> Some (Suc i)
      | None \<Rightarrow> if x = c then Some 0 else None)"

text \<open>
  \<open>PurePath.suffix\<close>: the name from its last dot on, unless that dot is the first or
  the last character of the name.
\<close>

definition suffix :: "string \<Rightarrow> string" where
  "suffix nm =
     (case rfind CHR ''.'' nm of
        None \<Rightarrow> []
      | Some i \<Rightarrow> if 0 < i \<and> i < length nm - 1 then drop i nm else [])"

text \<open>
  The bundle directory as the script sees it: \<open>exists\<close> is \<open>bundle_dir.exists()\<close>,
  and \<open>glob pattern\<close> is what iterating \<open>bundle_dir.glob(pattern)\<close> yields, in order,
  or the exception it raises (a \<open>ValueError\<close> for a pattern pathlib refuses).
\<close>

record dir_path =
  exists :: bool
  glob :: "string \<Rightarrow> error + file_path list"

text \<open>
  A directory tree that exists and holds exactly the regular files \<open>fs\<close> (at any depth,
  in the order a scan meets them), for patterns \<open>**/NAME\<close> whose \<open>NAME\<close> has no wildcard
  character: the glob yields the files called \<open>NAME\<close>.
\<close>

definition dir_of :: "file_path list \<Rightarrow> dir_path" where
  "dir_of fs = \<lparr>exists = True, glob = (\<lambda>pattern. Inr (filter (\<lambda>f. pattern = ''**/'' @ name f) fs))\<rparr>"

subsection \<open>JSON values and dictionaries\<close>

datatype json = JStr string | JInt int | JList "json list" | JObj "(string \<times> json) list"

type_synonym dict = "(string \<times> json) list"

text \<open>\<open>d[key] = v\<close>: replace the value of a key in place, or append a new key.\<close>

fun dict_set :: "string \<Rightarrow> json \<Rightarrow> dict \<Rightarrow> dict" where
  "dict_set key v [] = [(key, v)]"
| "dict_set key v ((k, w) # d) = (if k = key then (k, v) # d else (k, w) # dict_set key v d)"

subsection \<open>calculate\_sha256\<close>

text \<open>
  The loop \<open>for chunk in iter(lambda: f.read(n), b"")\<close>: \<open>rest\<close> is what the file object
  has not read yet, \<open>f.read(n)\<close> returns its first \<open>n\<close> bytes (all of them when fewer are
  left), and the loop ends at the first empty chunk.
\<close>

function hash_chunks :: "nat \<Rightarrow> sha256_obj \<Rightarrow> byte list \<Rightarrow> sha256_obj" where
  "hash_chunks n sha256_hash rest =
     (if take n rest = [] then sha256_hash
      else hash_chunks n (sha256_update sha256_hash (take n rest)) (drop n rest))"
  by pat_completeness auto
termination
  by (relation "measure (\<lambda>(n, h, rest). length rest)") auto

declare hash_chunks.simps [simp del]

definition calculate_sha256 :: "file_path \<Rightarrow> error + string" where
  "calculate_sha256 filepath =
     (case data filepath of
        None \<Rightarrow> Inl OSError
      | Some content \<Rightarrow> Inr (sha256_hexdigest (hash_chunks 4096 sha256_new content)))"

text \<open>\<open>file.stat().st_size\<close>: the length of the file in bytes.\<close>

definition st_size :: "file_path \<Rightarrow> error + nat" where
  "st_size f = (case data f of None \<Rightarrow> Inl OSError | Some content \<Rightarrow> Inr (length content))"

subsection \<open>find\_artifacts\<close>

definition linux_patterns :: "string \<Rightarrow> string list" where
  "linux_patterns version =
     [''**/airdb_'' @ version @ ''_amd64.AppImage'',
      ''**/airdb_'' @ version @ ''_amd64.deb'']"

definition windows_patterns :: "string \<Rightarrow> string list" where
  "windows_patterns version =
     [''**/airdb_'' @ version @ ''_x64-setup.exe'',
      ''**/airdb_'' @ version @ ''_x64_en-US.msi'']"

definition macos_patterns :: "string \<Rightarrow> string list" where
  "macos_patterns version =
     [''**/airdb_'' @ version @ ''_x64.dmg'',
      ''**/airdb_'' @ version @ ''_aarch64.dmg'']"

definition linux_accepts :: "string \<Rightarrow> bool" where
  "linux_accepts sfx = (sfx = ''.AppImage'')"

definition windows_accepts :: "string \<Rightarrow> bool" where
  "windows_accepts sfx = (sfx \<in> set [''.exe'', ''.msi''])"

definition macos_accepts :: "string \<Rightarrow> bool" where
  "macos_accepts sfx = (sfx = ''.dmg'')"

definition download_url :: "string \<Rightarrow> string \<Rightarrow> string" where
  "download_url version filename =
     ''https://github.com/Codeenk/airdb/releases/download/v'' @ version @ ''/'' @ filename"

text \<open>
  The dictionary literal of an artifact; its values are evaluated in the order written,
  the checksum before the size.
\<close>

definition artifact_record :: "string \<Rightarrow> file_path \<Rightarrow> error + json" where
  "artifact_record version f =
     (case calculate_sha256 f of
        Inl e \<Rightarrow> Inl e
      | Inr digest \<Rightarrow>
          (case st_size f of
             Inl e \<Rightarrow> Inl e
           | Inr nbytes \<Rightarrow>
               Inr (JObj [(''url'', JStr (download_url version (name f))),
                          (''sha256'', JStr digest),
                          (''size'', JInt (int nbytes)),
                          (''filename'', JStr (name f))])))"

text \<open>
  The inner loop \<open>for file in bundle_dir.glob(pattern)\<close> of one platform: the first file
  with an accepted suffix is stored under the platform's key, and \<open>break\<close> leaves this
  loop.
\<close>

fun scan_matches :: "string \<Rightarrow> (string \<Rightarrow> bool) \<Rightarrow> string \<Rightarrow> file_path list \<Rightarrow> dict \<Rightarrow> error + dict" where
  "scan_matches key accepts version [] artifacts = Inr artifacts"
| "scan_matches key accepts version (f # fs) artifacts =
     (if accepts (suffix (name f))
      then (case artifact_record version f of
              Inl e \<Rightarrow> Inl e
            | Inr r \<Rightarrow> Inr (dict_set key r artifacts))
      else scan_matches key accepts version fs artifacts)"

text \<open>
  The outer loop \<open>for pattern in patterns\<close> of one platform. The \<open>break\<close> of the inner
  loop does not leave it: every pattern is globbed.
\<close>

fun scan_patterns ::
  "dir_path \<Rightarrow> string \<Rightarrow> (string \<Rightarrow> bool) \<Rightarrow> string \<Rightarrow> string list \<Rightarrow> dict \<Rightarrow> error + dict" where
  "scan_patterns bundle_dir key accepts version [] artifacts = Inr artifacts"
| "scan_patterns bundle_dir key accepts version (pattern # patterns) artifacts =
     (case glob bundle_dir pattern of
        Inl e \<Rightarrow> Inl e
      | Inr fs \<Rightarrow>
          (case scan_matches key accepts version fs artifacts of
             Inl e \<Rightarrow> Inl e
           | Inr artifacts' \<Rightarrow> scan_patterns bundle_dir key accepts version patterns artifacts'))"

definition find_artifacts :: "dir_path \<Rightarrow> string \<Rightarrow> error + dict" where
  "find_artifacts bundle_dir version =
     (case scan_patterns bundle_dir ''linux'' linux_accepts version (linux_patterns version) [] of
        Inl e \<Rightarrow> Inl e
      | Inr a1 \<Rightarrow>
          (case scan_patterns bundle_dir ''windows'' windows_accepts version
                  (windows_patterns version) a1 of
             Inl e \<Rightarrow> Inl e
           | Inr a2 \<Rightarrow>
               scan_patterns bundle_dir ''macos'' macos_accepts version (macos_patterns version) a2))"

subsection \<open>generate\_manifest\<close>

text \<open>
  \<open>utcnow\<close> is the value of \<open>datetime.utcnow().strftime("%Y-%m-%d")\<close>. An optional
  argument is \<open>None\<close> when the caller omits it; \<open>channel\<close> and \<open>min_version\<close> then take
  the defaults of the signature. \<open>changelog or []\<close> replaces \<open>None\<close> and the empty list
  by a new empty list. A \<open>Path\<close> is always true, so \<open>bundle_dir and bundle_dir.exists()\<close>
  tests that the argument was given and that the directory exists.
\<close>

definition generate_manifest ::
  "string \<Rightarrow> string \<Rightarrow> string option \<Rightarrow> string option \<Rightarrow> string list option
    \<Rightarrow> dir_path option \<Rightarrow> error + dict" where
  "generate_manifest utcnow version channel min_version changelog bundle_dir =
     (let manifest =
            [(''version'', JStr version),
             (''channel'', JStr (case channel of None \<Rightarrow> ''stable'' | Some c \<Rightarrow> c)),
             (''release_date'', JStr utcnow),
             (''min_supported_version'',
                JStr (case min_version of None \<Rightarrow> ''0.1.0'' | Some m \<Rightarrow> m)),
             (''changelog'',
                JList (map JStr (case changelog of
                                   None \<Rightarrow> []
                                 | Some entries \<Rightarrow> if entries = [] then [] else entries))),
             (''artifacts'', JObj []),
             (''signature'', JStr '''')]
      in case bundle_dir of
           None \<Rightarrow> Inr manifest
         | Some d \<Rightarrow>
             if exists d
             then (case find_artifacts d version of
                     Inl e \<Rightarrow> Inl e
                   | Inr artifacts \<Rightarrow> Inr (dict_set ''artifacts'' (JObj artifacts) manifest))
             else Inr manifest)"

subsection \<open>main\<close>

text \<open>
  The command line as given: an option is \<open>None\<close> when it is absent. argparse ends the
  process with a usage error when \<open>--version\<close> is absent (\<open>required=True\<close>) and when
  \<open>--changelog\<close> is given without an entry (\<open>nargs="+"\<close>); it fills in the defaults of
  \<open>--channel\<close>, \<open>--min-version\<close> and \<open>--output\<close>.
\<close>

record cli =
  arg_version :: "string option"
  arg_channel :: "string option"
  arg_min_version :: "string option"
  arg_changelog :: "string list option"
  arg_bundle_dir :: "dir_path option"
  arg_output :: "string option"

text \<open>
  The result of \<open>main\<close> is the file it wrote, as the output path and the manifest dumped
  into it, or the error that ended the process with a non-zero status before anything was
  written. \<open>writable\<close> holds the paths for which \<open>open(path, "w")\<close> succeeds.
\<close>

definition main :: "string \<Rightarrow> string set \<Rightarrow> cli \<Rightarrow> error + string \<times> dict" where
  "main utcnow writable args =
     (case arg_version args of
        None \<Rightarrow> Inl UsageError
      | Some version \<Rightarrow>
          if arg_changelog args = Some [] then Inl UsageError
          else
            (let channel = (case arg_channel args of None \<Rightarrow> ''stable'' | Some c \<Rightarrow> c);
                 min_version = (case arg_min_version args of None \<Rightarrow> ''0.1.0'' | Some m \<Rightarrow> m);
                 output = (case arg_output args of None \<Rightarrow> ''update-manifest.json'' | Some p \<Rightarrow> p)
             in case generate_manifest utcnow version (Some channel) (Some min_version)
                       (arg_changelog args) (arg_bundle_dir args) of
                  Inl e \<Rightarrow> Inl e
                | Inr manifest \<Rightarrow>
                    if output \<in> writable then Inr (output, manifest) else Inl OSError))"

section \<open>Properties\<close>

subsection \<open>Hashing in chunks\<close>

text \<open>
  Absorbing a concatenation is absorbing its first part and then, from the state and the
  incomplete block left over, its second part.
\<close>

lemma absorb_append:
  "absorb hs (xs @ ys) = (case absorb hs xs of (hs', r) \<Rightarrow> absorb hs' (r @ ys))"
proof (induction hs xs rule: absorb.induct)
  case (1 hs bs)
  show ?case
  proof (cases "length bs < 64")
    case True
    then show ?thesis by (simp add: absorb.simps [of hs bs])
  next
    case False
    then have "absorb hs (bs @ ys) = absorb (compress hs (take 64 bs)) (drop 64 bs @ ys)"
      by (simp add: absorb.simps [of hs "bs @ ys"])
    with False 1 show ?thesis by (simp add: absorb.simps [of hs bs])
  qed
qed

lemma absorb_Nil: "absorb hs [] = (hs, [])"
  by (simp add: absorb.simps)

lemma update_tracks:
  assumes "absorb initial_hash fed_bytes = (state h, pending h)" and "fed h = length fed_bytes"
  shows "absorb initial_hash (fed_bytes @ chunk) = (state (sha256_update h chunk), pending (sha256_update h chunk))"
    and "fed (sha256_update h chunk) = length (fed_bytes @ chunk)"
proof -
  have "absorb initial_hash (fed_bytes @ chunk) = absorb (state h) (pending h @ chunk)"
    using assms(1) by (simp add: absorb_append [of initial_hash fed_bytes chunk])
  then show "absorb initial_hash (fed_bytes @ chunk)
               = (state (sha256_update h chunk), pending (sha256_update h chunk))"
    by (simp add: sha256_update_def split: prod.splits)
  show "fed (sha256_update h chunk) = length (fed_bytes @ chunk)"
    using assms(2) by (simp add: sha256_update_def split: prod.splits)
qed

lemma hash_chunks_tracks:
  assumes "0 < n"
    and "absorb initial_hash fed_bytes = (state h, pending h)" and "fed h = length fed_bytes"
  shows "absorb initial_hash (fed_bytes @ rest) = (state (hash_chunks n h rest), pending (hash_chunks n h rest))
       \<and> fed (hash_chunks n h rest) = length (fed_bytes @ rest)"
  using assms
proof (induction n h rest arbitrary: fed_bytes rule: hash_chunks.induct)
  case (1 n h rest)
  show ?case
  proof (cases "take n rest = []")
    case True
    with "1.prems" have "rest = []" by simp
    with "1.prems" show ?thesis by (simp add: hash_chunks.simps)
  next
    case False
    have "absorb initial_hash ((fed_bytes @ take n rest) @ drop n rest) =
            (state (hash_chunks n (sha256_update h (take n rest)) (drop n rest)),
             pending (hash_chunks n (sha256_update h (take n rest)) (drop n rest)))
          \<and> fed (hash_chunks n (sha256_update h (take n rest)) (drop n rest))
              = length ((fed_bytes @ take n rest) @ drop n rest)"
      using False "1.prems" update_tracks [of fed_bytes h "take n rest"]
      by (intro "1.IH") simp_all
    with False show ?thesis
      by (simp add: hash_chunks.simps [of n h rest])
  qed
qed

lemma hash_chunks_digest:
  assumes "0 < n"
  shows "sha256_hexdigest (hash_chunks n sha256_new content) = whole_content_sha256 content"
proof -
  have "absorb initial_hash ([] @ content)
          = (state (hash_chunks n sha256_new content), pending (hash_chunks n sha256_new content))
        \<and> fed (hash_chunks n sha256_new content) = length ([] @ content)"
    using assms by (intro hash_chunks_tracks) (simp_all add: sha256_new_def absorb_Nil)
  then show ?thesis
    by (simp add: sha256_hexdigest_def whole_content_sha256_def
          absorb_append [of initial_hash content "padding (length content)"])
qed

subsection \<open>The records of the Locator\<close>

lemma calculate_sha256_readable:
  "data f = Some content \<Longrightarrow> calculate_sha256 f = Inr (whole_content_sha256 content)"
  by (simp add: calculate_sha256_def hash_chunks_digest)

lemma artifact_record_readable:
  "data f = Some content \<Longrightarrow>
   artifact_record version f =
     Inr (JObj [(''url'', JStr (download_url version (name f))),
                (''sha256'', JStr (whole_content_sha256 content)),
                (''size'', JInt (int (length content))),
                (''filename'', JStr (name f))])"
  by (simp add: artifact_record_def calculate_sha256_readable st_size_def)

lemma artifact_record_unreadable:
  "data f = None \<Longrightarrow> artifact_record version f = Inl OSError"
  by (simp add: artifact_record_def calculate_sha256_def)

lemma artifact_record_Inr:
  assumes "artifact_record version f = Inr r"
  obtains content where "data f = Some content"
    and "r = JObj [(''url'', JStr (download_url version (name f))),
                   (''sha256'', JStr (whole_content_sha256 content)),
                   (''size'', JInt (int (length content))),
                   (''filename'', JStr (name f))]"
proof (cases "data f")
  case None
  with assms show ?thesis by (simp add: artifact_record_unreadable)
next
  case (Some content)
  with assms that [of content] show ?thesis by (simp add: artifact_record_readable)
qed

lemma set_dict_set: "set (dict_set key v d) \<subseteq> insert (key, v) (set d)"
  by (induction d) (auto split: if_splits)

lemma keys_dict_set: "fst ` set (dict_set key v d) = insert key (fst ` set d)"
proof (induction d)
  case Nil
  show ?case by simp
next
  case (Cons p d)
  obtain k w where p: "p = (k, w)" by (cases p)
  show ?case
  proof (cases "k = key")
    case True
    with p show ?thesis by simp
  next
    case False
    with p Cons.IH show ?thesis by (simp add: insert_commute)
  qed
qed

lemma map_of_dict_set: "map_of (dict_set key v d) k = (if k = key then Some v else map_of d k)"
  by (induction d) auto

lemma scan_matches_entries:
  assumes "scan_matches key accepts version fs a = Inr a'" and "(k, r) \<in> set a'"
  shows "(k, r) \<in> set a \<or>
         (k = key \<and> (\<exists>f \<in> set fs. accepts (suffix (name f)) \<and> artifact_record version f = Inr r))"
  using assms
proof (induction fs)
  case Nil
  then show ?case by simp
next
  case (Cons f fs)
  show ?case
  proof (cases "accepts (suffix (name f))")
    case True
    with Cons.prems obtain r' where r': "artifact_record version f = Inr r'"
      and a': "a' = dict_set key r' a"
      by (auto split: sum.splits)
    from Cons.prems(2) a' set_dict_set [of key r' a] have "(k, r) = (key, r') \<or> (k, r) \<in> set a"
      by auto
    with True r' show ?thesis by auto
  next
    case False
    with Cons show ?thesis by auto
  qed
qed

lemma scan_patterns_entries:
  assumes "scan_patterns d key accepts version ps a = Inr a'" and "(k, r) \<in> set a'"
  shows "(k, r) \<in> set a \<or>
         (k = key \<and> (\<exists>p \<in> set ps. \<exists>fs. glob d p = Inr fs \<and>
            (\<exists>f \<in> set fs. accepts (suffix (name f)) \<and> artifact_record version f = Inr r)))"
  using assms
proof (induction ps arbitrary: a)
  case Nil
  then show ?case by simp
next
  case (Cons p ps)
  from Cons.prems(1) obtain fs a1 where fs: "glob d p = Inr fs"
    and a1: "scan_matches key accepts version fs a = Inr a1"
    and rest: "scan_patterns d key accepts version ps a1 = Inr a'"
    by (auto split: sum.splits)
  from Cons.IH [OF rest Cons.prems(2)] show ?case
  proof
    assume "(k, r) \<in> set a1"
    from scan_matches_entries [OF a1 this] fs show ?thesis by auto
  next
    assume "k = key \<and> (\<exists>p \<in> set ps. \<exists>fs. glob d p = Inr fs \<and>
            (\<exists>f \<in> set fs. accepts (suffix (name f)) \<and> artifact_record version f = Inr r))"
    then show ?thesis by auto
  qed
qed

lemma find_artifacts_entries:
  assumes "find_artifacts d version = Inr artifacts" and "(k, r) \<in> set artifacts"
  shows "\<exists>p fs f. glob d p = Inr fs \<and> f \<in> set fs \<and> artifact_record version f = Inr r \<and>
           (k = ''linux'' \<and> p \<in> set (linux_patterns version) \<and> linux_accepts (suffix (name f))
            \<or> k = ''windows'' \<and> p \<in> set (windows_patterns version) \<and> windows_accepts (suffix (name f))
            \<or> k = ''macos'' \<and> p \<in> set (macos_patterns version) \<and> macos_accepts (suffix (name f)))"
proof -
  from assms(1) obtain a1 a2
    where l: "scan_patterns d ''linux'' linux_accepts version (linux_patterns version) [] = Inr a1"
      and w: "scan_patterns d ''windows'' windows_accepts version (windows_patterns version) a1 = Inr a2"
      and m: "scan_patterns d ''macos'' macos_accepts version (macos_patterns version) a2 = Inr artifacts"
    by (auto simp: find_artifacts_def split: sum.splits)
  from scan_patterns_entries [OF m assms(2)] scan_patterns_entries [OF w, of k r]
    scan_patterns_entries [OF l, of k r]
  show ?thesis by fastforce
qed

subsection \<open>Which platforms are recorded\<close>

lemma scan_matches_records:
  assumes "scan_matches key accepts version fs a = Inr a'"
    and "f \<in> set fs" and "accepts (suffix (name f))"
  shows "key \<in> fst ` set a'"
  using assms
proof (induction fs)
  case Nil
  then show ?case by simp
next
  case (Cons g fs)
  show ?case
  proof (cases "accepts (suffix (name g))")
    case True
    with Cons.prems(1) obtain r where "a' = dict_set key r a"
      by (auto split: sum.splits)
    then show ?thesis by (simp add: keys_dict_set)
  next
    case False
    with Cons show ?thesis by auto
  qed
qed

lemma scan_matches_keeps:
  assumes "scan_matches key accepts version fs a = Inr a'"
  shows "fst ` set a \<subseteq> fst ` set a'"
  using assms
proof (induction fs)
  case Nil
  then show ?case by simp
next
  case (Cons g fs)
  show ?case
  proof (cases "accepts (suffix (name g))")
    case True
    with Cons.prems(1) obtain r where "a' = dict_set key r a"
      by (auto split: sum.splits)
    then show ?thesis by (auto simp: keys_dict_set)
  next
    case False
    with Cons show ?thesis by auto
  qed
qed

lemma scan_patterns_keeps:
  assumes "scan_patterns d key accepts version ps a = Inr a'"
  shows "fst ` set a \<subseteq> fst ` set a'"
  using assms
proof (induction ps arbitrary: a)
  case Nil
  then show ?case by simp
next
  case (Cons p ps)
  from Cons.prems obtain fs a1 where "scan_matches key accepts version fs a = Inr a1"
    and "scan_patterns d key accepts version ps a1 = Inr a'"
    by (auto split: sum.splits)
  with Cons.IH [of a1] scan_matches_keeps [of key accepts version fs a a1]
  show ?case by blast
qed

lemma scan_patterns_records:
  assumes "scan_patterns d key accepts version ps a = Inr a'"
    and "p \<in> set ps" and "glob d p = Inr fs" and "f \<in> set fs" and "accepts (suffix (name f))"
  shows "key \<in> fst ` set a'"
  using assms
proof (induction ps arbitrary: a)
  case Nil
  then show ?case by simp
next
  case (Cons q ps)
  from Cons.prems(1) obtain gs a1 where q: "glob d q = Inr gs"
    and a1: "scan_matches key accepts version gs a = Inr a1"
    and rest: "scan_patterns d key accepts version ps a1 = Inr a'"
    by (auto split: sum.splits)
  show ?case
  proof (cases "p = q")
    case True
    with q Cons.prems(3) have "gs = fs" by simp
    with a1 Cons.prems(4,5) have "key \<in> fst ` set a1"
      by (auto intro: scan_matches_records)
    with scan_patterns_keeps [OF rest] show ?thesis by blast
  next
    case False
    with Cons.prems(2) have "p \<in> set ps" by simp
    from Cons.IH [OF rest this Cons.prems(3,4,5)] show ?thesis .
  qed
qed

lemma find_artifacts_scans:
  assumes "find_artifacts d version = Inr artifacts"
  obtains a1 a2
  where "scan_patterns d ''linux'' linux_accepts version (linux_patterns version) [] = Inr a1"
    and "scan_patterns d ''windows'' windows_accepts version (windows_patterns version) a1 = Inr a2"
    and "scan_patterns d ''macos'' macos_accepts version (macos_patterns version) a2 = Inr artifacts"
  using assms by (auto simp: find_artifacts_def split: sum.splits)

subsection \<open>The shape of the manifest\<close>

lemma generate_manifest_shape:
  assumes "generate_manifest utcnow version channel min_version changelog bundle_dir = Inr manifest"
  obtains artifacts where
    "manifest =
       [(''version'', JStr version),
        (''channel'', JStr (case channel of None \<Rightarrow> ''stable'' | Some c \<Rightarrow> c)),
        (''release_date'', JStr utcnow),
        (''min_supported_version'', JStr (case min_version of None \<Rightarrow> ''0.1.0'' | Some m \<Rightarrow> m)),
        (''changelog'', JList (map JStr (case changelog of None \<Rightarrow> [] | Some entries \<Rightarrow> entries))),
        (''artifacts'', JObj artifacts),
        (''signature'', JStr '''')]"
    and "case bundle_dir of
           None \<Rightarrow> artifacts = []
         | Some d \<Rightarrow> if exists d then find_artifacts d version = Inr artifacts else artifacts = []"
proof (cases bundle_dir)
  case None
  with assms that [of "[]"] show ?thesis
    by (cases changelog) (auto simp: generate_manifest_def)
next
  case (Some d)
  show ?thesis
  proof (cases "exists d")
    case False
    with Some assms that [of "[]"] show ?thesis
      by (cases changelog) (auto simp: generate_manifest_def)
  next
    case True
    with Some assms obtain artifacts where "find_artifacts d version = Inr artifacts"
      by (auto simp: generate_manifest_def split: sum.splits)
    with True Some assms that [of artifacts] show ?thesis
      by (cases changelog) (auto simp: generate_manifest_def)
  qed
qed

lemma find_artifacts_keys:
  assumes "find_artifacts d version = Inr artifacts"
  shows "fst ` set artifacts \<subseteq> {''linux'', ''windows'', ''macos''}"
proof
  fix k assume "k \<in> fst ` set artifacts"
  then obtain r where "(k, r) \<in> set artifacts" by auto
  from find_artifacts_entries [OF assms this]
  show "k \<in> {''linux'', ''windows'', ''macos''}" by auto
qed

lemma generate_manifest_fails:
  "generate_manifest utcnow version channel min_version changelog bundle_dir = Inl e
   \<longleftrightarrow> (\<exists>d. bundle_dir = Some d \<and> exists d \<and> find_artifacts d version = Inl e)"
proof (cases bundle_dir)
  case None
  then show ?thesis by (simp add: generate_manifest_def Let_def)
next
  case (Some d)
  show ?thesis
  proof (cases "exists d")
    case False
    with Some show ?thesis by (simp add: generate_manifest_def Let_def)
  next
    case True
    with Some show ?thesis
      by (cases "find_artifacts d version") (simp_all add: generate_manifest_def Let_def)
  qed
qed

lemma main_Inr:
  assumes "main utcnow writable args = Inr (path, manifest)"
  obtains version where "arg_version args = Some version"
    and "arg_changelog args \<noteq> Some []"
    and "generate_manifest utcnow version
           (Some (case arg_channel args of None \<Rightarrow> ''stable'' | Some c \<Rightarrow> c))
           (Some (case arg_min_version args of None \<Rightarrow> ''0.1.0'' | Some m \<Rightarrow> m))
           (arg_changelog args) (arg_bundle_dir args) = Inr manifest"
    and "path = (case arg_output args of None \<Rightarrow> ''update-manifest.json'' | Some p \<Rightarrow> p)"
    and "path \<in> writable"
proof (cases "arg_version args")
  case None
  with assms show ?thesis by (simp add: main_def)
next
  case (Some version)
  with assms have cl: "arg_changelog args \<noteq> Some []"
    by (auto simp: main_def)
  with Some assms that [of version] show ?thesis
    by (auto simp: main_def Let_def split: sum.splits if_splits)
qed

lemma manifest_fields:
  assumes "generate_manifest utcnow version channel min_version changelog bundle_dir = Inr manifest"
  shows "map_of manifest ''version'' = Some (JStr version)"
    and "map_of manifest ''channel'' = Some (JStr (case channel of None \<Rightarrow> ''stable'' | Some c \<Rightarrow> c))"
    and "map_of manifest ''min_supported_version''
           = Some (JStr (case min_version of None \<Rightarrow> ''0.1.0'' | Some m \<Rightarrow> m))"
    and "map_of manifest ''changelog''
           = Some (JList (map JStr (case changelog of None \<Rightarrow> [] | Some entries \<Rightarrow> entries)))"
proof -
  from assms obtain artifacts where m: "manifest =
       [(''version'', JStr version),
        (''channel'', JStr (case channel of None \<Rightarrow> ''stable'' | Some c \<Rightarrow> c)),
        (''release_date'', JStr utcnow),
        (''min_supported_version'', JStr (case min_version of None \<Rightarrow> ''0.1.0'' | Some m \<Rightarrow> m)),
        (''changelog'', JList (map JStr (case changelog of None \<Rightarrow> [] | Some entries \<Rightarrow> entries))),
        (''artifacts'', JObj artifacts),
        (''signature'', JStr '''')]"
    by (rule generate_manifest_shape)
  from m show "map_of manifest ''version'' = Some (JStr version)" by simp
  from m show "map_of manifest ''channel'' = Some (JStr (case channel of None \<Rightarrow> ''stable'' | Some c \<Rightarrow> c))"
    by simp
  from m show "map_of manifest ''min_supported_version''
           = Some (JStr (case min_version of None \<Rightarrow> ''0.1.0'' | Some m \<Rightarrow> m))"
    by simp
  from m show "map_of manifest ''changelog''
           = Some (JList (map JStr (case changelog of None \<Rightarrow> [] | Some entries \<Rightarrow> entries)))"
    by simp
qed

subsection \<open>Runs on directories that answer alike\<close>

lemma scan_patterns_same:
  assumes "\<forall>p \<in> set ps. glob d1 p = glob d2 p"
  shows "scan_patterns d1 key accepts version ps a = scan_patterns d2 key accepts version ps a"
  using assms
proof (induction ps arbitrary: a)
  case Nil
  show ?case by simp
next
  case (Cons p ps)
  then have here: "glob d1 p = glob d2 p"
    and rest: "\<And>a. scan_patterns d1 key accepts version ps a
                    = scan_patterns d2 key accepts version ps a"
    by simp_all
  show ?case
  proof (cases "glob d2 p")
    case (Inl e)
    with here show ?thesis by simp
  next
    case (Inr fs)
    with here rest show ?thesis
      by (cases "scan_matches key accepts version fs a") simp_all
  qed
qed

lemma find_artifacts_same:
  assumes "\<forall>p \<in> set (linux_patterns version @ windows_patterns version @ macos_patterns version).
             glob d1 p = glob d2 p"
  shows "find_artifacts d1 version = find_artifacts d2 version"
proof -
  from assms have "\<forall>p \<in> set (linux_patterns version). glob d1 p = glob d2 p"
    and "\<forall>p \<in> set (windows_patterns version). glob d1 p = glob d2 p"
    and "\<forall>p \<in> set (macos_patterns version). glob d1 p = glob d2 p"
    by simp_all
  then have same: "\<And>key accepts a. scan_patterns d1 key accepts version (linux_patterns version) a
               = scan_patterns d2 key accepts version (linux_patterns version) a"
    "\<And>key accepts a. scan_patterns d1 key accepts version (windows_patterns version) a
               = scan_patterns d2 key accepts version (windows_patterns version) a"
    "\<And>key accepts a. scan_patterns d1 key accepts version (macos_patterns version) a
               = scan_patterns d2 key accepts version (macos_patterns version) a"
    by (simp_all add: scan_patterns_same)
  show ?thesis unfolding find_artifacts_def same ..
qed

lemma generate_manifest_same_bundle:
  assumes "b1 = None \<and> b2 = None \<or>
           (\<exists>d1 d2. b1 = Some d1 \<and> b2 = Some d2 \<and> exists d1 = exists d2 \<and>
              (\<forall>p \<in> set (linux_patterns version @ windows_patterns version
                             @ macos_patterns version). glob d1 p = glob d2 p))"
  shows "generate_manifest utcnow version channel min_version changelog b1
         = generate_manifest utcnow version channel min_version changelog b2"
  using assms
proof
  assume "b1 = None \<and> b2 = None"
  then show ?thesis by simp
next
  assume "\<exists>d1 d2. b1 = Some d1 \<and> b2 = Some d2 \<and> exists d1 = exists d2 \<and>
              (\<forall>p \<in> set (linux_patterns version @ windows_patterns version
                             @ macos_patterns version). glob d1 p = glob d2 p)"
  then obtain d1 d2 where b: "b1 = Some d1" "b2 = Some d2" and e: "exists d1 = exists d2"
    and g: "\<forall>p \<in> set (linux_patterns version @ windows_patterns version
                             @ macos_patterns version). glob d1 p = glob d2 p"
    by blast
  from g have "find_artifacts d1 version = find_artifacts d2 version"
    by (rule find_artifacts_same)
  with b e show ?thesis
    by (cases "exists d2") (simp_all add: generate_manifest_def)
qed

lemma clock_changes_release_date_only:
  assumes m1: "generate_manifest now1 version channel min_version changelog bundle_dir = Inr m1"
    and m2: "generate_manifest now2 version channel min_version changelog bundle_dir = Inr m2"
  shows "map_of m1 ''artifacts'' = map_of m2 ''artifacts''"
    and "map_of m1 ''version'' = map_of m2 ''version''"
    and "map_of m1 ''channel'' = map_of m2 ''channel''"
    and "map_of m1 ''min_supported_version'' = map_of m2 ''min_supported_version''"
    and "map_of m1 ''changelog'' = map_of m2 ''changelog''"
    and "m2 = dict_set ''release_date'' (JStr now2) m1"
proof -
  from m1 obtain a1 where s1: "m1 =
       [(''version'', JStr version),
        (''channel'', JStr (case channel of None \<Rightarrow> ''stable'' | Some c \<Rightarrow> c)),
        (''release_date'', JStr now1),
        (''min_supported_version'', JStr (case min_version of None \<Rightarrow> ''0.1.0'' | Some m \<Rightarrow> m)),
        (''changelog'', JList (map JStr (case changelog of None \<Rightarrow> [] | Some entries \<Rightarrow> entries))),
        (''artifacts'', JObj a1),
        (''signature'', JStr '''')]"
    and f1: "case bundle_dir of
           None \<Rightarrow> a1 = []
         | Some d \<Rightarrow> if exists d then find_artifacts d version = Inr a1 else a1 = []"
    by (rule generate_manifest_shape)
  from m2 obtain a2 where s2: "m2 =
       [(''version'', JStr version),
        (''channel'', JStr (case channel of None \<Rightarrow> ''stable'' | Some c \<Rightarrow> c)),
        (''release_date'', JStr now2),
        (''min_supported_version'', JStr (case min_version of None \<Rightarrow> ''0.1.0'' | Some m \<Rightarrow> m)),
        (''changelog'', JList (map JStr (case changelog of None \<Rightarrow> [] | Some entries \<Rightarrow> entries))),
        (''artifacts'', JObj a2),
        (''signature'', JStr '''')]"
    and f2: "case bundle_dir of
           None \<Rightarrow> a2 = []
         | Some d \<Rightarrow> if exists d then find_artifacts d version = Inr a2 else a2 = []"
    by (rule generate_manifest_shape)
  from f1 f2 have same: "a1 = a2"
    by (auto split: option.splits if_splits)
  from s1 s2 same show "map_of m1 ''artifacts'' = map_of m2 ''artifacts''" by simp
  from s1 s2 show "map_of m1 ''version'' = map_of m2 ''version''" by simp
  from s1 s2 show "map_of m1 ''channel'' = map_of m2 ''channel''" by simp
  from s1 s2 show "map_of m1 ''min_supported_version'' = map_of m2 ''min_supported_version''" by simp
  from s1 s2 show "map_of m1 ''changelog'' = map_of m2 ''changelog''" by simp
  from s1 s2 same show "m2 = dict_set ''release_date'' (JStr now2) m1" by simp
qed

subsection \<open>Test vectors of the hash\<close>

text \<open>The digests of the empty message and of \<open>abc\<close> from FIPS 180-4, as hashlib prints them.\<close>

lemma sha256_of_empty:
  "whole_content_sha256 [] = ''e3b0c44298fc1c149afbf4c8996fb92427ae41e4649b934ca495991b7852b855''"
  by code_simp

lemma sha256_of_abc:
  "whole_content_sha256 [0x61, 0x62, 0x63]
     = ''ba7816bf8f01cfea414140de5dae2223b00361a396177a9cb410ff61f20015ad''"
  by code_simp

section \<open>The claims\<close>

text \<open>
  Claim C5. The checksum and the size of a record are those of the file: hashing the
  content in chunks of any positive size \<open>n\<close> gives the SHA-256 digest of the whole
  content; for a file of \<open>length content\<close> bytes, \<open>calculate_sha256\<close> (chunks of 4096
  bytes) returns that digest and \<open>st_size\<close> the length; and every record the Locator
  returns is the record of a file some glob yielded, with the digest of its whole content
  as \<open>sha256\<close> and its length as \<open>size\<close>.
\<close>

theorem checksum_and_size:
  "(0 < n \<longrightarrow> sha256_hexdigest (hash_chunks n sha256_new content) = whole_content_sha256 content)
   \<and> (data f = Some content \<longrightarrow>
         calculate_sha256 f = Inr (whole_content_sha256 content) \<and> st_size f = Inr (length content))
   \<and> (find_artifacts bundle_dir version = Inr artifacts \<and> (key, r) \<in> set artifacts \<longrightarrow>
         (\<exists>pattern fs g bytes.
            glob bundle_dir pattern = Inr fs \<and> g \<in> set fs \<and> data g = Some bytes \<and>
            r = JObj [(''url'', JStr (download_url version (name g))),
                      (''sha256'', JStr (whole_content_sha256 bytes)),
                      (''size'', JInt (int (length bytes))),
                      (''filename'', JStr (name g))]))"
proof (intro conjI impI)
  assume "0 < n"
  then show "sha256_hexdigest (hash_chunks n sha256_new content) = whole_content_sha256 content"
    by (rule hash_chunks_digest)
next
  assume "data f = Some content"
  then show "calculate_sha256 f = Inr (whole_content_sha256 content)"
    by (rule calculate_sha256_readable)
next
  assume "data f = Some content"
  then show "st_size f = Inr (length content)"
    by (simp add: st_size_def)
next
  assume "find_artifacts bundle_dir version = Inr artifacts \<and> (key, r) \<in> set artifacts"
  then obtain pattern fs g where "glob bundle_dir pattern = Inr fs" "g \<in> set fs"
    and r: "artifact_record version g = Inr r"
    using find_artifacts_entries [of bundle_dir version artifacts key r] by blast
  moreover from r obtain bytes where "data g = Some bytes"
    "r = JObj [(''url'', JStr (download_url version (name g))),
               (''sha256'', JStr (whole_content_sha256 bytes)),
               (''size'', JInt (int (length bytes))),
               (''filename'', JStr (name g))]"
    by (rule artifact_record_Inr)
  ultimately show "\<exists>pattern fs g bytes.
            glob bundle_dir pattern = Inr fs \<and> g \<in> set fs \<and> data g = Some bytes \<and>
            r = JObj [(''url'', JStr (download_url version (name g))),
                      (''sha256'', JStr (whole_content_sha256 bytes)),
                      (''size'', JInt (int (length bytes))),
                      (''filename'', JStr (name g))]"
    by blast
qed

theorem checksum_and_size_witness:
  "0 < (2 :: nat)
   \<and> sha256_hexdigest (hash_chunks 2 sha256_new [1, 2, 3]) = whole_content_sha256 [1, 2, 3]
   \<and> data \<lparr>name = ''airdb_1.2.0_amd64.AppImage'', data = Some [1, 2, 3]\<rparr> = Some [1, 2, 3]
   \<and> calculate_sha256 \<lparr>name = ''airdb_1.2.0_amd64.AppImage'', data = Some [1, 2, 3]\<rparr>
        = Inr (whole_content_sha256 [1, 2, 3])
   \<and> st_size \<lparr>name = ''airdb_1.2.0_amd64.AppImage'', data = Some [1, 2, 3]\<rparr> = Inr 3
   \<and> find_artifacts (dir_of [\<lparr>name = ''airdb_1.2.0_amd64.AppImage'', data = Some [1, 2, 3]\<rparr>]) ''1.2.0''
        = Inr [(''linux'',
                JObj [(''url'', JStr ''https://github.com/Codeenk/airdb/releases/download/v1.2.0/airdb_1.2.0_amd64.AppImage''),
                      (''sha256'', JStr (whole_content_sha256 [1, 2, 3])),
                      (''size'', JInt 3),
                      (''filename'', JStr ''airdb_1.2.0_amd64.AppImage'')])]"
  using checksum_and_size [of 2 "[1, 2, 3]"
      "\<lparr>name = ''airdb_1.2.0_amd64.AppImage'', data = Some [1, 2, 3]\<rparr>"
      "dir_of [\<lparr>name = ''airdb_1.2.0_amd64.AppImage'', data = Some [1, 2, 3]\<rparr>]" "''1.2.0''"
      "[(''linux'',
                JObj [(''url'', JStr ''https://github.com/Codeenk/airdb/releases/download/v1.2.0/airdb_1.2.0_amd64.AppImage''),
                      (''sha256'', JStr (whole_content_sha256 [1, 2, 3])),
                      (''size'', JInt 3),
                      (''filename'', JStr ''airdb_1.2.0_amd64.AppImage'')])]"
      "''linux''"
      "JObj [(''url'', JStr ''https://github.com/Codeenk/airdb/releases/download/v1.2.0/airdb_1.2.0_amd64.AppImage''),
                      (''sha256'', JStr (whole_content_sha256 [1, 2, 3])),
                      (''size'', JInt 3),
                      (''filename'', JStr ''airdb_1.2.0_amd64.AppImage'')]"]
  by (simp add: find_artifacts_def dir_of_def linux_patterns_def windows_patterns_def macos_patterns_def
  linux_accepts_def windows_accepts_def macos_accepts_def suffix_def
  artifact_record_readable download_url_def)

text \<open>
  Claim C7. The \<open>url\<close> of every record the Locator returns is the fixed repository
  base, \<open>/releases/download/v\<close>, the version, a slash and the record's own \<open>filename\<close>;
  it is a function of the version and the file name only, and it ends in the file name.
\<close>

theorem url_is_template:
  assumes "find_artifacts bundle_dir version = Inr artifacts" and "(key, r) \<in> set artifacts"
  shows "\<exists>filename digest nbytes.
           r = JObj [(''url'', JStr (''https://github.com/Codeenk/airdb/releases/download/v''
                                      @ version @ ''/'' @ filename)),
                     (''sha256'', JStr digest),
                     (''size'', JInt nbytes),
                     (''filename'', JStr filename)]
           \<and> drop (length (''https://github.com/Codeenk/airdb/releases/download/v''
                                      @ version @ ''/''))
                 (''https://github.com/Codeenk/airdb/releases/download/v''
                                      @ version @ ''/'' @ filename) = filename"
proof -
  from assms obtain g where "artifact_record version g = Inr r"
    using find_artifacts_entries [of bundle_dir version artifacts key r] by blast
  then obtain bytes where
    "r = JObj [(''url'', JStr (download_url version (name g))),
               (''sha256'', JStr (whole_content_sha256 bytes)),
               (''size'', JInt (int (length bytes))),
               (''filename'', JStr (name g))]"
    by (rule artifact_record_Inr)
  then show ?thesis by (simp add: download_url_def)
qed

theorem url_is_template_witness:
  "find_artifacts (dir_of [\<lparr>name = ''airdb_0.2.0_x64.dmg'', data = Some [7, 7]\<rparr>]) ''0.2.0''
     = Inr [(''macos'',
             JObj [(''url'', JStr ''https://github.com/Codeenk/airdb/releases/download/v0.2.0/airdb_0.2.0_x64.dmg''),
                   (''sha256'', JStr (whole_content_sha256 [7, 7])),
                   (''size'', JInt 2),
                   (''filename'', JStr ''airdb_0.2.0_x64.dmg'')])]
   \<and> (\<exists>filename digest nbytes.
         JObj [(''url'', JStr ''https://github.com/Codeenk/airdb/releases/download/v0.2.0/airdb_0.2.0_x64.dmg''),
               (''sha256'', JStr (whole_content_sha256 [7, 7])),
               (''size'', JInt 2),
               (''filename'', JStr ''airdb_0.2.0_x64.dmg'')]
         = JObj [(''url'', JStr (''https://github.com/Codeenk/airdb/releases/download/v''
                                      @ ''0.2.0'' @ ''/'' @ filename)),
                 (''sha256'', JStr digest),
                 (''size'', JInt nbytes),
                 (''filename'', JStr filename)])"
proof -
  have found: "find_artifacts (dir_of [\<lparr>name = ''airdb_0.2.0_x64.dmg'', data = Some [7, 7]\<rparr>]) ''0.2.0''
     = Inr [(''macos'',
             JObj [(''url'', JStr ''https://github.com/Codeenk/airdb/releases/download/v0.2.0/airdb_0.2.0_x64.dmg''),
                   (''sha256'', JStr (whole_content_sha256 [7, 7])),
                   (''size'', JInt 2),
                   (''filename'', JStr ''airdb_0.2.0_x64.dmg'')])]"
    by (simp add: find_artifacts_def dir_of_def linux_patterns_def windows_patterns_def
          macos_patterns_def linux_accepts_def windows_accepts_def macos_accepts_def suffix_def
          artifact_record_readable download_url_def)
  from url_is_template [OF found, of "''macos''"] found show ?thesis
    by simp
qed

text \<open>
  Claim C1, evaluated where the code departs from it. The bundle holds, for version 1.2.0,
  the setup.exe and the .msi of windows and the x64 and the aarch64 .dmg of macos. Each
  first pattern matches, and the \<open>break\<close> leaves only the loop over that pattern's
  files; the second pattern is globbed as well and its file replaces the record. The
  result holds the .msi and the aarch64 .dmg, the files of the later patterns.
\<close>

theorem later_pattern_overwrites:
  "find_artifacts
     (dir_of [\<lparr>name = ''airdb_1.2.0_x64-setup.exe'', data = Some [1]\<rparr>,
              \<lparr>name = ''airdb_1.2.0_x64_en-US.msi'', data = Some [2, 2]\<rparr>,
              \<lparr>name = ''airdb_1.2.0_x64.dmg'', data = Some [3, 3, 3]\<rparr>,
              \<lparr>name = ''airdb_1.2.0_aarch64.dmg'', data = Some [4, 4, 4, 4]\<rparr>]) ''1.2.0''
   = Inr [(''windows'',
           JObj [(''url'', JStr ''https://github.com/Codeenk/airdb/releases/download/v1.2.0/airdb_1.2.0_x64_en-US.msi''),
                 (''sha256'', JStr (whole_content_sha256 [2, 2])),
                 (''size'', JInt 2),
                 (''filename'', JStr ''airdb_1.2.0_x64_en-US.msi'')]),
          (''macos'',
           JObj [(''url'', JStr ''https://github.com/Codeenk/airdb/releases/download/v1.2.0/airdb_1.2.0_aarch64.dmg''),
                 (''sha256'', JStr (whole_content_sha256 [4, 4, 4, 4])),
                 (''size'', JInt 4),
                 (''filename'', JStr ''airdb_1.2.0_aarch64.dmg'')])]"
  by (simp add: find_artifacts_def dir_of_def linux_patterns_def windows_patterns_def
        macos_patterns_def linux_accepts_def windows_accepts_def macos_accepts_def suffix_def
        artifact_record_readable download_url_def)

text \<open>
  Claim C2 as stated fails: a bundle that holds only \<open>airdb_1.2.0_amd64.deb\<close> yields no
  linux entry, because the linux loop accepts the suffix \<open>.AppImage\<close> alone.
\<close>

theorem deb_only_counterexample:
  "find_artifacts (dir_of [\<lparr>name = ''airdb_1.2.0_amd64.deb'', data = Some [1, 2, 3]\<rparr>]) ''1.2.0'' = Inr []"
  by (simp add: find_artifacts_def dir_of_def linux_patterns_def windows_patterns_def
        macos_patterns_def linux_accepts_def windows_accepts_def macos_accepts_def suffix_def)

text \<open>
  Claim C2, amended. Whenever the Locator returns, a platform has a record as soon as
  one of its patterns yields a file whose suffix the platform accepts; and when every
  file the linux patterns yield is a \<open>.deb\<close> package, there is no linux entry.
\<close>

theorem expected_artifact_is_recorded:
  assumes "find_artifacts bundle_dir version = Inr artifacts"
  shows "(pl \<in> set (linux_patterns version) \<and> glob bundle_dir pl = Inr fsl \<and> fl \<in> set fsl
            \<and> linux_accepts (suffix (name fl)) \<longrightarrow> ''linux'' \<in> fst ` set artifacts)
       \<and> (pw \<in> set (windows_patterns version) \<and> glob bundle_dir pw = Inr fsw \<and> fw \<in> set fsw
            \<and> windows_accepts (suffix (name fw)) \<longrightarrow> ''windows'' \<in> fst ` set artifacts)
       \<and> (pm \<in> set (macos_patterns version) \<and> glob bundle_dir pm = Inr fsm \<and> fm \<in> set fsm
            \<and> macos_accepts (suffix (name fm)) \<longrightarrow> ''macos'' \<in> fst ` set artifacts)
       \<and> ((\<forall>p \<in> set (linux_patterns version). \<forall>fs. glob bundle_dir p = Inr fs \<longrightarrow>
              (\<forall>f \<in> set fs. suffix (name f) = ''.deb''))
            \<longrightarrow> ''linux'' \<notin> fst ` set artifacts)"
proof -
  from assms obtain a1 a2
    where l: "scan_patterns bundle_dir ''linux'' linux_accepts version (linux_patterns version) [] = Inr a1"
      and w: "scan_patterns bundle_dir ''windows'' windows_accepts version (windows_patterns version) a1 = Inr a2"
      and m: "scan_patterns bundle_dir ''macos'' macos_accepts version (macos_patterns version) a2 = Inr artifacts"
    by (rule find_artifacts_scans)
  have linux: "''linux'' \<in> fst ` set artifacts"
    if "pl \<in> set (linux_patterns version)" "glob bundle_dir pl = Inr fsl" "fl \<in> set fsl"
      "linux_accepts (suffix (name fl))"
    using scan_patterns_records [OF l that] scan_patterns_keeps [OF w] scan_patterns_keeps [OF m]
    by blast
  have windows: "''windows'' \<in> fst ` set artifacts"
    if "pw \<in> set (windows_patterns version)" "glob bundle_dir pw = Inr fsw" "fw \<in> set fsw"
      "windows_accepts (suffix (name fw))"
    using scan_patterns_records [OF w that] scan_patterns_keeps [OF m]
    by blast
  have macos: "''macos'' \<in> fst ` set artifacts"
    if "pm \<in> set (macos_patterns version)" "glob bundle_dir pm = Inr fsm" "fm \<in> set fsm"
      "macos_accepts (suffix (name fm))"
    using scan_patterns_records [OF m that] .
  have deb: "''linux'' \<notin> fst ` set artifacts"
    if only_deb: "\<forall>p \<in> set (linux_patterns version). \<forall>fs. glob bundle_dir p = Inr fs \<longrightarrow>
              (\<forall>f \<in> set fs. suffix (name f) = ''.deb'')"
  proof
    assume "''linux'' \<in> fst ` set artifacts"
    then obtain r where "(''linux'', r) \<in> set artifacts" by auto
    from find_artifacts_entries [OF assms this]
    obtain p fs f where "glob bundle_dir p = Inr fs" "f \<in> set fs"
      "p \<in> set (linux_patterns version)" "linux_accepts (suffix (name f))"
      by auto
    with only_deb show False by (auto simp: linux_accepts_def)
  qed
  from linux windows macos deb show ?thesis by blast
qed

theorem expected_artifact_is_recorded_witness:
  "find_artifacts
     (dir_of [\<lparr>name = ''airdb_1.2.0_amd64.AppImage'', data = Some [1]\<rparr>,
              \<lparr>name = ''airdb_1.2.0_x64-setup.exe'', data = Some [2]\<rparr>,
              \<lparr>name = ''airdb_1.2.0_x64.dmg'', data = Some [3]\<rparr>]) ''1.2.0''
     = Inr [(''linux'', JObj [(''url'', JStr ''https://github.com/Codeenk/airdb/releases/download/v1.2.0/airdb_1.2.0_amd64.AppImage''),
                 (''sha256'', JStr (whole_content_sha256 [1])), (''size'', JInt 1),
                 (''filename'', JStr ''airdb_1.2.0_amd64.AppImage'')]),
            (''windows'', JObj [(''url'', JStr ''https://github.com/Codeenk/airdb/releases/download/v1.2.0/airdb_1.2.0_x64-setup.exe''),
                 (''sha256'', JStr (whole_content_sha256 [2])), (''size'', JInt 1),
                 (''filename'', JStr ''airdb_1.2.0_x64-setup.exe'')]),
            (''macos'', JObj [(''url'', JStr ''https://github.com/Codeenk/airdb/releases/download/v1.2.0/airdb_1.2.0_x64.dmg''),
                 (''sha256'', JStr (whole_content_sha256 [3])), (''size'', JInt 1),
                 (''filename'', JStr ''airdb_1.2.0_x64.dmg'')])]
   \<and> find_artifacts (dir_of [\<lparr>name = ''airdb_1.2.0_amd64.deb'', data = Some [4]\<rparr>]) ''1.2.0'' = Inr []
   \<and> ''linux'' \<notin> fst ` set ([] :: dict)"
proof -
  let ?app = "\<lparr>name = ''airdb_1.2.0_amd64.AppImage'', data = Some [1 :: byte]\<rparr>"
  let ?exe = "\<lparr>name = ''airdb_1.2.0_x64-setup.exe'', data = Some [2 :: byte]\<rparr>"
  let ?dmg = "\<lparr>name = ''airdb_1.2.0_x64.dmg'', data = Some [3 :: byte]\<rparr>"
  let ?deb = "\<lparr>name = ''airdb_1.2.0_amd64.deb'', data = Some [4 :: byte]\<rparr>"
  have all_three: "find_artifacts (dir_of [?app, ?exe, ?dmg]) ''1.2.0''
     = Inr [(''linux'', JObj [(''url'', JStr ''https://github.com/Codeenk/airdb/releases/download/v1.2.0/airdb_1.2.0_amd64.AppImage''),
                 (''sha256'', JStr (whole_content_sha256 [1])), (''size'', JInt 1),
                 (''filename'', JStr ''airdb_1.2.0_amd64.AppImage'')]),
            (''windows'', JObj [(''url'', JStr ''https://github.com/Codeenk/airdb/releases/download/v1.2.0/airdb_1.2.0_x64-setup.exe''),
                 (''sha256'', JStr (whole_content_sha256 [2])), (''size'', JInt 1),
                 (''filename'', JStr ''airdb_1.2.0_x64-setup.exe'')]),
            (''macos'', JObj [(''url'', JStr ''https://github.com/Codeenk/airdb/releases/download/v1.2.0/airdb_1.2.0_x64.dmg''),
                 (''sha256'', JStr (whole_content_sha256 [3])), (''size'', JInt 1),
                 (''filename'', JStr ''airdb_1.2.0_x64.dmg'')])]"
    by (simp add: find_artifacts_def dir_of_def linux_patterns_def windows_patterns_def
        macos_patterns_def linux_accepts_def windows_accepts_def macos_accepts_def suffix_def
        artifact_record_readable download_url_def)
  have deb_only: "find_artifacts (dir_of [?deb]) ''1.2.0'' = Inr []"
    by (simp add: find_artifacts_def dir_of_def linux_patterns_def windows_patterns_def
        macos_patterns_def linux_accepts_def windows_accepts_def macos_accepts_def suffix_def)
  have only_deb: "\<forall>p \<in> set (linux_patterns ''1.2.0''). \<forall>fs. glob (dir_of [?deb]) p = Inr fs \<longrightarrow>
              (\<forall>f \<in> set fs. suffix (name f) = ''.deb'')"
    by (auto simp: dir_of_def linux_patterns_def suffix_def)
  from expected_artifact_is_recorded [OF all_three,
      where pl = "''**/airdb_1.2.0_amd64.AppImage''" and fsl = "[?app]" and fl = "?app"
        and pw = "''**/airdb_1.2.0_x64-setup.exe''" and fsw = "[?exe]" and fw = "?exe"
        and pm = "''**/airdb_1.2.0_x64.dmg''" and fsm = "[?dmg]" and fm = "?dmg"]
    expected_artifact_is_recorded [OF deb_only] only_deb all_three deb_only
  show ?thesis by simp
qed

text \<open>
  Claim C4. Every manifest the Assembler returns has exactly the keys \<open>version\<close>,
  \<open>channel\<close>, \<open>release_date\<close>, \<open>min_supported_version\<close>, \<open>changelog\<close>,
  \<open>artifacts\<close> and \<open>signature\<close>; \<open>artifacts\<close> is an object whose keys are among
  \<open>linux\<close>, \<open>windows\<close> and \<open>macos\<close>, and \<open>signature\<close> is the empty string.
\<close>

theorem manifest_has_required_keys:
  assumes "generate_manifest utcnow version channel min_version changelog bundle_dir = Inr manifest"
  shows "map fst manifest = [''version'', ''channel'', ''release_date'', ''min_supported_version'',
                            ''changelog'', ''artifacts'', ''signature'']
       \<and> (\<exists>artifacts. map_of manifest ''artifacts'' = Some (JObj artifacts)
              \<and> fst ` set artifacts \<subseteq> {''linux'', ''windows'', ''macos''})
       \<and> map_of manifest ''signature'' = Some (JStr '''')"
proof -
  from assms obtain artifacts where m: "manifest =
       [(''version'', JStr version),
        (''channel'', JStr (case channel of None \<Rightarrow> ''stable'' | Some c \<Rightarrow> c)),
        (''release_date'', JStr utcnow),
        (''min_supported_version'', JStr (case min_version of None \<Rightarrow> ''0.1.0'' | Some m \<Rightarrow> m)),
        (''changelog'', JList (map JStr (case changelog of None \<Rightarrow> [] | Some entries \<Rightarrow> entries))),
        (''artifacts'', JObj artifacts),
        (''signature'', JStr '''')]"
    and a: "case bundle_dir of
           None \<Rightarrow> artifacts = []
         | Some d \<Rightarrow> if exists d then find_artifacts d version = Inr artifacts else artifacts = []"
    by (rule generate_manifest_shape)
  from a have "fst ` set artifacts \<subseteq> {''linux'', ''windows'', ''macos''}"
    by (auto split: option.splits if_splits dest: find_artifacts_keys)
  with m show ?thesis by simp
qed

theorem manifest_has_required_keys_witness:
  "generate_manifest ''2026-11-03'' ''1.2.0'' None None None
     (Some (dir_of [\<lparr>name = ''airdb_1.2.0_amd64.AppImage'', data = Some [1, 2]\<rparr>]))
   = Inr [(''version'', JStr ''1.2.0''),
          (''channel'', JStr ''stable''),
          (''release_date'', JStr ''2026-11-03''),
          (''min_supported_version'', JStr ''0.1.0''),
          (''changelog'', JList []),
          (''artifacts'',
             JObj [(''linux'',
                    JObj [(''url'', JStr ''https://github.com/Codeenk/airdb/releases/download/v1.2.0/airdb_1.2.0_amd64.AppImage''),
                          (''sha256'', JStr (whole_content_sha256 [1, 2])),
                          (''size'', JInt 2),
                          (''filename'', JStr ''airdb_1.2.0_amd64.AppImage'')])]),
          (''signature'', JStr '''')]
   \<and> fst ` set [(''linux'',
                    JObj [(''url'', JStr ''https://github.com/Codeenk/airdb/releases/download/v1.2.0/airdb_1.2.0_amd64.AppImage''),
                          (''sha256'', JStr (whole_content_sha256 [1, 2])),
                          (''size'', JInt 2),
                          (''filename'', JStr ''airdb_1.2.0_amd64.AppImage'')])]
        \<subseteq> {''linux'', ''windows'', ''macos''}"
proof -
  have made: "generate_manifest ''2026-11-03'' ''1.2.0'' None None None
     (Some (dir_of [\<lparr>name = ''airdb_1.2.0_amd64.AppImage'', data = Some [1, 2]\<rparr>]))
   = Inr [(''version'', JStr ''1.2.0''),
          (''channel'', JStr ''stable''),
          (''release_date'', JStr ''2026-11-03''),
          (''min_supported_version'', JStr ''0.1.0''),
          (''changelog'', JList []),
          (''artifacts'',
             JObj [(''linux'',
                    JObj [(''url'', JStr ''https://github.com/Codeenk/airdb/releases/download/v1.2.0/airdb_1.2.0_amd64.AppImage''),
                          (''sha256'', JStr (whole_content_sha256 [1, 2])),
                          (''size'', JInt 2),
                          (''filename'', JStr ''airdb_1.2.0_amd64.AppImage'')])]),
          (''signature'', JStr '''')]"
    by (simp add: generate_manifest_def find_artifacts_def dir_of_def linux_patterns_def
        windows_patterns_def macos_patterns_def linux_accepts_def windows_accepts_def
        macos_accepts_def suffix_def artifact_record_readable download_url_def)
  from manifest_has_required_keys [OF made] made show ?thesis by simp
qed

text \<open>
  Claim C6. When no bundle directory is given, or the one given does not exist, the
  Assembler returns a manifest, its \<open>artifacts\<close> is the empty object, and nothing of the
  directory is consulted: the result is the same whatever its glob would yield or raise.
\<close>

theorem missing_bundle_is_not_an_error:
  assumes "bundle_dir = None \<or> (\<exists>d. bundle_dir = Some d \<and> \<not> exists d)"
  shows "generate_manifest utcnow version channel min_version changelog bundle_dir
         = Inr [(''version'', JStr version),
                (''channel'', JStr (case channel of None \<Rightarrow> ''stable'' | Some c \<Rightarrow> c)),
                (''release_date'', JStr utcnow),
                (''min_supported_version'',
                   JStr (case min_version of None \<Rightarrow> ''0.1.0'' | Some m \<Rightarrow> m)),
                (''changelog'',
                   JList (map JStr (case changelog of None \<Rightarrow> [] | Some entries \<Rightarrow> entries))),
                (''artifacts'', JObj []),
                (''signature'', JStr '''')]"
  using assms by (cases changelog) (auto simp: generate_manifest_def)

theorem missing_bundle_is_not_an_error_witness:
  "generate_manifest ''2026-11-03'' ''1.2.0'' None None None None
   = Inr [(''version'', JStr ''1.2.0''),
          (''channel'', JStr ''stable''),
          (''release_date'', JStr ''2026-11-03''),
          (''min_supported_version'', JStr ''0.1.0''),
          (''changelog'', JList []),
          (''artifacts'', JObj []),
          (''signature'', JStr '''')]
   \<and> \<not> exists \<lparr>exists = False, glob = (\<lambda>pattern. Inl OSError)\<rparr>
   \<and> generate_manifest ''2026-11-03'' ''1.2.0'' None None None
        (Some \<lparr>exists = False, glob = (\<lambda>pattern. Inl OSError)\<rparr>)
   = Inr [(''version'', JStr ''1.2.0''),
          (''channel'', JStr ''stable''),
          (''release_date'', JStr ''2026-11-03''),
          (''min_supported_version'', JStr ''0.1.0''),
          (''changelog'', JList []),
          (''artifacts'', JObj []),
          (''signature'', JStr '''')]"
  using missing_bundle_is_not_an_error [of None "''2026-11-03''" "''1.2.0''" None None None]
    missing_bundle_is_not_an_error
      [of "Some \<lparr>exists = False, glob = (\<lambda>pattern. Inl OSError)\<rparr>"
          "''2026-11-03''" "''1.2.0''" None None None]
  by simp

text \<open>
  Claim C8 as stated fails. A bundle holds two files called
  \<open>airdb_1.2.0_amd64.AppImage\<close> in different subdirectories, one of 1 byte and one of 2
  bytes. The contents are the same in both runs, but the scan meets the two files in the
  other order in the second run; the Locator records the first file the glob yields, so
  the two manifests differ in \<open>artifacts\<close>.
\<close>

theorem scan_order_counterexample:
  "set [\<lparr>name = ''airdb_1.2.0_amd64.AppImage'', data = Some [1]\<rparr>,
        \<lparr>name = ''airdb_1.2.0_amd64.AppImage'', data = Some [2, 2]\<rparr>]
   = set [\<lparr>name = ''airdb_1.2.0_amd64.AppImage'', data = Some [2, 2]\<rparr>,
          \<lparr>name = ''airdb_1.2.0_amd64.AppImage'', data = Some [1]\<rparr>]
   \<and> generate_manifest ''2026-11-03'' ''1.2.0'' None None None
       (Some (dir_of [\<lparr>name = ''airdb_1.2.0_amd64.AppImage'', data = Some [1]\<rparr>,
                      \<lparr>name = ''airdb_1.2.0_amd64.AppImage'', data = Some [2, 2]\<rparr>]))
     = Inr [(''version'', JStr ''1.2.0''),
            (''channel'', JStr ''stable''),
            (''release_date'', JStr ''2026-11-03''),
            (''min_supported_version'', JStr ''0.1.0''),
            (''changelog'', JList []),
            (''artifacts'',
               JObj [(''linux'',
                      JObj [(''url'', JStr ''https://github.com/Codeenk/airdb/releases/download/v1.2.0/airdb_1.2.0_amd64.AppImage''),
                            (''sha256'', JStr (whole_content_sha256 [1])),
                            (''size'', JInt 1),
                            (''filename'', JStr ''airdb_1.2.0_amd64.AppImage'')])]),
            (''signature'', JStr '''')]
   \<and> generate_manifest ''2026-11-03'' ''1.2.0'' None None None
       (Some (dir_of [\<lparr>name = ''airdb_1.2.0_amd64.AppImage'', data = Some [2, 2]\<rparr>,
                      \<lparr>name = ''airdb_1.2.0_amd64.AppImage'', data = Some [1]\<rparr>]))
     = Inr [(''version'', JStr ''1.2.0''),
            (''channel'', JStr ''stable''),
            (''release_date'', JStr ''2026-11-03''),
            (''min_supported_version'', JStr ''0.1.0''),
            (''changelog'', JList []),
            (''artifacts'',
               JObj [(''linux'',
                      JObj [(''url'', JStr ''https://github.com/Codeenk/airdb/releases/download/v1.2.0/airdb_1.2.0_amd64.AppImage''),
                            (''sha256'', JStr (whole_content_sha256 [2, 2])),
                            (''size'', JInt 2),
                            (''filename'', JStr ''airdb_1.2.0_amd64.AppImage'')])]),
            (''signature'', JStr '''')]
   \<and> generate_manifest ''2026-11-03'' ''1.2.0'' None None None
       (Some (dir_of [\<lparr>name = ''airdb_1.2.0_amd64.AppImage'', data = Some [1]\<rparr>,
                      \<lparr>name = ''airdb_1.2.0_amd64.AppImage'', data = Some [2, 2]\<rparr>]))
     \<noteq> generate_manifest ''2026-11-03'' ''1.2.0'' None None None
       (Some (dir_of [\<lparr>name = ''airdb_1.2.0_amd64.AppImage'', data = Some [2, 2]\<rparr>,
                      \<lparr>name = ''airdb_1.2.0_amd64.AppImage'', data = Some [1]\<rparr>]))"
  by (simp add: generate_manifest_def find_artifacts_def dir_of_def linux_patterns_def
        windows_patterns_def macos_patterns_def linux_accepts_def windows_accepts_def
        macos_accepts_def suffix_def artifact_record_readable download_url_def insert_commute)

text \<open>
  Claim C8, amended. Two runs of the Assembler with the same version, channel, minimum
  version and changelog, either both without a bundle directory or on bundle directories
  that both exist or both do not and whose globs for the patterns of the version yield the
  same files in the same order, return manifests with the same \<open>artifacts\<close>,
  \<open>version\<close>, \<open>channel\<close>, \<open>min_supported_version\<close> and \<open>changelog\<close>, at whatever
  times they run: the second manifest is the first with its \<open>release_date\<close> replaced, and
  a run that fails fails in the same way in the other run. The globs agree in particular
  when every pattern matches at most one file, in whatever order the directory is scanned.
\<close>

theorem same_glob_answers_same_fields:
  assumes "b1 = None \<and> b2 = None \<or>
           (\<exists>d1 d2. b1 = Some d1 \<and> b2 = Some d2 \<and> exists d1 = exists d2 \<and>
              (\<forall>p \<in> set (linux_patterns version @ windows_patterns version
                             @ macos_patterns version). glob d1 p = glob d2 p))"
  shows "(generate_manifest now1 version channel min_version changelog b1 = Inr m1 \<and>
          generate_manifest now2 version channel min_version changelog b2 = Inr m2 \<longrightarrow>
            map_of m1 ''artifacts'' = map_of m2 ''artifacts''
            \<and> map_of m1 ''version'' = map_of m2 ''version''
            \<and> map_of m1 ''channel'' = map_of m2 ''channel''
            \<and> map_of m1 ''min_supported_version'' = map_of m2 ''min_supported_version''
            \<and> map_of m1 ''changelog'' = map_of m2 ''changelog''
            \<and> m2 = dict_set ''release_date'' (JStr now2) m1)
       \<and> (generate_manifest now1 version channel min_version changelog b1 = Inl e \<longrightarrow>
            generate_manifest now2 version channel min_version changelog b2 = Inl e)"
proof (intro conjI impI)
  assume "generate_manifest now1 version channel min_version changelog b1 = Inr m1 \<and>
          generate_manifest now2 version channel min_version changelog b2 = Inr m2"
  with generate_manifest_same_bundle [OF assms, of now1 channel min_version changelog]
  have m1: "generate_manifest now1 version channel min_version changelog b2 = Inr m1"
    and m2: "generate_manifest now2 version channel min_version changelog b2 = Inr m2"
    by simp_all
  from clock_changes_release_date_only [OF m1 m2]
  show "map_of m1 ''artifacts'' = map_of m2 ''artifacts''"
    and "map_of m1 ''version'' = map_of m2 ''version''"
    and "map_of m1 ''channel'' = map_of m2 ''channel''"
    and "map_of m1 ''min_supported_version'' = map_of m2 ''min_supported_version''"
    and "map_of m1 ''changelog'' = map_of m2 ''changelog''"
    and "m2 = dict_set ''release_date'' (JStr now2) m1"
    by blast+
next
  assume "generate_manifest now1 version channel min_version changelog b1 = Inl e"
  with generate_manifest_same_bundle [OF assms, of now1 channel min_version changelog]
  have "generate_manifest now1 version channel min_version changelog b2 = Inl e"
    by simp
  then show "generate_manifest now2 version channel min_version changelog b2 = Inl e"
    by (simp add: generate_manifest_fails)
qed

theorem same_glob_answers_same_fields_witness:
  "generate_manifest ''2026-11-03'' ''1.2.0'' None None (Some [''Faster sync''])
     (Some (dir_of [\<lparr>name = ''airdb_1.2.0_amd64.AppImage'', data = Some [1]\<rparr>,
                    \<lparr>name = ''airdb_1.2.0_x64.dmg'', data = Some [9]\<rparr>]))
   = Inr [(''version'', JStr ''1.2.0''),
          (''channel'', JStr ''stable''),
          (''release_date'', JStr ''2026-11-03''),
          (''min_supported_version'', JStr ''0.1.0''),
          (''changelog'', JList [JStr ''Faster sync'']),
          (''artifacts'',
             JObj [(''linux'',
                    JObj [(''url'', JStr ''https://github.com/Codeenk/airdb/releases/download/v1.2.0/airdb_1.2.0_amd64.AppImage''),
                          (''sha256'', JStr (whole_content_sha256 [1])),
                          (''size'', JInt 1),
                          (''filename'', JStr ''airdb_1.2.0_amd64.AppImage'')]),
                   (''macos'',
                    JObj [(''url'', JStr ''https://github.com/Codeenk/airdb/releases/download/v1.2.0/airdb_1.2.0_x64.dmg''),
                          (''sha256'', JStr (whole_content_sha256 [9])),
                          (''size'', JInt 1),
                          (''filename'', JStr ''airdb_1.2.0_x64.dmg'')])]),
          (''signature'', JStr '''')]
   \<and> generate_manifest ''2027-01-01'' ''1.2.0'' None None (Some [''Faster sync''])
     (Some (dir_of [\<lparr>name = ''airdb_1.2.0_x64.dmg'', data = Some [9]\<rparr>,
                    \<lparr>name = ''airdb_1.2.0_amd64.AppImage'', data = Some [1]\<rparr>]))
   = Inr [(''version'', JStr ''1.2.0''),
          (''channel'', JStr ''stable''),
          (''release_date'', JStr ''2027-01-01''),
          (''min_supported_version'', JStr ''0.1.0''),
          (''changelog'', JList [JStr ''Faster sync'']),
          (''artifacts'',
             JObj [(''linux'',
                    JObj [(''url'', JStr ''https://github.com/Codeenk/airdb/releases/download/v1.2.0/airdb_1.2.0_amd64.AppImage''),
                          (''sha256'', JStr (whole_content_sha256 [1])),
                          (''size'', JInt 1),
                          (''filename'', JStr ''airdb_1.2.0_amd64.AppImage'')]),
                   (''macos'',
                    JObj [(''url'', JStr ''https://github.com/Codeenk/airdb/releases/download/v1.2.0/airdb_1.2.0_x64.dmg''),
                          (''sha256'', JStr (whole_content_sha256 [9])),
                          (''size'', JInt 1),
                          (''filename'', JStr ''airdb_1.2.0_x64.dmg'')])]),
          (''signature'', JStr '''')]
   \<and> generate_manifest ''2026-11-03'' ''1.2.0'' None None None
     (Some (dir_of [\<lparr>name = ''airdb_1.2.0_x64.dmg'', data = None\<rparr>])) = Inl OSError
   \<and> generate_manifest ''2027-01-01'' ''1.2.0'' None None None
     (Some (dir_of [\<lparr>name = ''airdb_1.2.0_x64.dmg'', data = None\<rparr>])) = Inl OSError"
proof -
  let ?app = "\<lparr>name = ''airdb_1.2.0_amd64.AppImage'', data = Some [1 :: byte]\<rparr>"
  let ?dmg = "\<lparr>name = ''airdb_1.2.0_x64.dmg'', data = Some [9 :: byte]\<rparr>"
  let ?bad = "\<lparr>name = ''airdb_1.2.0_x64.dmg'', data = (None :: byte list option)\<rparr>"
  let ?m = "\<lambda>now. [(''version'', JStr ''1.2.0''),
          (''channel'', JStr ''stable''),
          (''release_date'', JStr now),
          (''min_supported_version'', JStr ''0.1.0''),
          (''changelog'', JList [JStr ''Faster sync'']),
          (''artifacts'',
             JObj [(''linux'',
                    JObj [(''url'', JStr ''https://github.com/Codeenk/airdb/releases/download/v1.2.0/airdb_1.2.0_amd64.AppImage''),
                          (''sha256'', JStr (whole_content_sha256 [1])),
                          (''size'', JInt 1),
                          (''filename'', JStr ''airdb_1.2.0_amd64.AppImage'')]),
                   (''macos'',
                    JObj [(''url'', JStr ''https://github.com/Codeenk/airdb/releases/download/v1.2.0/airdb_1.2.0_x64.dmg''),
                          (''sha256'', JStr (whole_content_sha256 [9])),
                          (''size'', JInt 1),
                          (''filename'', JStr ''airdb_1.2.0_x64.dmg'')])]),
          (''signature'', JStr '''')]"
  have first: "generate_manifest ''2026-11-03'' ''1.2.0'' None None (Some [''Faster sync''])
                 (Some (dir_of [?app, ?dmg])) = Inr (?m ''2026-11-03'')"
    by (simp add: generate_manifest_def find_artifacts_def dir_of_def linux_patterns_def
        windows_patterns_def macos_patterns_def linux_accepts_def windows_accepts_def
        macos_accepts_def suffix_def artifact_record_readable download_url_def)
  have second: "generate_manifest ''2027-01-01'' ''1.2.0'' None None (Some [''Faster sync''])
                 (Some (dir_of [?dmg, ?app])) = Inr (?m ''2027-01-01'')"
    by (simp add: generate_manifest_def find_artifacts_def dir_of_def linux_patterns_def
        windows_patterns_def macos_patterns_def linux_accepts_def windows_accepts_def
        macos_accepts_def suffix_def artifact_record_readable download_url_def)
  have failing: "generate_manifest ''2026-11-03'' ''1.2.0'' None None None
                   (Some (dir_of [?bad])) = Inl OSError"
    by (simp add: generate_manifest_def find_artifacts_def dir_of_def linux_patterns_def
        windows_patterns_def macos_patterns_def linux_accepts_def windows_accepts_def
        macos_accepts_def suffix_def artifact_record_unreadable)
  have reordered: "Some (dir_of [?app, ?dmg]) = None \<and> Some (dir_of [?dmg, ?app]) = None \<or>
           (\<exists>d1 d2. Some (dir_of [?app, ?dmg]) = Some d1 \<and> Some (dir_of [?dmg, ?app]) = Some d2
              \<and> exists d1 = exists d2 \<and>
              (\<forall>p \<in> set (linux_patterns ''1.2.0'' @ windows_patterns ''1.2.0''
                             @ macos_patterns ''1.2.0''). glob d1 p = glob d2 p))"
    by (simp add: dir_of_def linux_patterns_def windows_patterns_def macos_patterns_def)
  have same: "Some (dir_of [?bad]) = None \<and> Some (dir_of [?bad]) = None \<or>
           (\<exists>d1 d2. Some (dir_of [?bad]) = Some d1 \<and> Some (dir_of [?bad]) = Some d2
              \<and> exists d1 = exists d2 \<and>
              (\<forall>p \<in> set (linux_patterns ''1.2.0'' @ windows_patterns ''1.2.0''
                             @ macos_patterns ''1.2.0''). glob d1 p = glob d2 p))"
    by simp
  from same_glob_answers_same_fields [OF reordered,
         of "''2026-11-03''" None None "Some [''Faster sync'']" "?m ''2026-11-03''"
            "''2027-01-01''" "?m ''2027-01-01''"]
       same_glob_answers_same_fields [OF same,
         of "''2026-11-03''" None None None _ "''2027-01-01''" _ OSError]
       first second failing
  show ?thesis by simp
qed

text \<open>
  Claim C3 as stated fails: with \<open>--version ""\<close> argparse is satisfied, the Assembler
  is called with the empty string, and the manifest is written with an empty version.
\<close>

theorem empty_version_counterexample:
  "main ''2026-11-03'' {''update-manifest.json''}
     \<lparr>arg_version = Some '''', arg_channel = None, arg_min_version = None,
      arg_changelog = None, arg_bundle_dir = None, arg_output = None\<rparr>
   = Inr (''update-manifest.json'',
          [(''version'', JStr ''''),
           (''channel'', JStr ''stable''),
           (''release_date'', JStr ''2026-11-03''),
           (''min_supported_version'', JStr ''0.1.0''),
           (''changelog'', JList []),
           (''artifacts'', JObj []),
           (''signature'', JStr '''')])"
  by (simp add: main_def generate_manifest_def)

text \<open>
  Claim C3, amended. A missing version is a usage error before assembly begins: \<open>main\<close>
  ends with the error and writes nothing. Every manifest that \<open>main\<close> writes, and every
  manifest the Assembler returns, carries the version string it was given, whether or not
  that string is empty.
\<close>

theorem missing_version_is_rejected:
  "(arg_version args = None \<longrightarrow> main utcnow writable args = Inl UsageError)
   \<and> (main utcnow writable args = Inr (path, manifest) \<longrightarrow>
        (\<exists>version. arg_version args = Some version
           \<and> map_of manifest ''version'' = Some (JStr version)))
   \<and> (generate_manifest utcnow v channel min_version changelog bundle_dir = Inr m \<longrightarrow>
        map_of m ''version'' = Some (JStr v))"
proof (intro conjI impI)
  assume "arg_version args = None"
  then show "main utcnow writable args = Inl UsageError" by (simp add: main_def)
next
  assume "main utcnow writable args = Inr (path, manifest)"
  then obtain version where "arg_version args = Some version"
    and "generate_manifest utcnow version
           (Some (case arg_channel args of None \<Rightarrow> ''stable'' | Some c \<Rightarrow> c))
           (Some (case arg_min_version args of None \<Rightarrow> ''0.1.0'' | Some m \<Rightarrow> m))
           (arg_changelog args) (arg_bundle_dir args) = Inr manifest"
    by (rule main_Inr)
  then show "\<exists>version. arg_version args = Some version
           \<and> map_of manifest ''version'' = Some (JStr version)"
    by (auto dest: manifest_fields(1))
next
  assume "generate_manifest utcnow v channel min_version changelog bundle_dir = Inr m"
  then show "map_of m ''version'' = Some (JStr v)" by (rule manifest_fields(1))
qed

theorem missing_version_is_rejected_witness:
  "main ''2026-11-03'' {''update-manifest.json''}
     \<lparr>arg_version = None, arg_channel = Some ''beta'', arg_min_version = None,
      arg_changelog = None, arg_bundle_dir = None, arg_output = None\<rparr> = Inl UsageError
   \<and> main ''2026-11-03'' {''m.json''}
     \<lparr>arg_version = Some ''0.2.0'', arg_channel = None, arg_min_version = None,
      arg_changelog = None, arg_bundle_dir = None, arg_output = Some ''m.json''\<rparr>
     = Inr (''m.json'',
          [(''version'', JStr ''0.2.0''),
           (''channel'', JStr ''stable''),
           (''release_date'', JStr ''2026-11-03''),
           (''min_supported_version'', JStr ''0.1.0''),
           (''changelog'', JList []),
           (''artifacts'', JObj []),
           (''signature'', JStr '''')])
   \<and> generate_manifest ''2026-11-03'' '''' None None None None
     = Inr [(''version'', JStr ''''),
           (''channel'', JStr ''stable''),
           (''release_date'', JStr ''2026-11-03''),
           (''min_supported_version'', JStr ''0.1.0''),
           (''changelog'', JList []),
           (''artifacts'', JObj []),
           (''signature'', JStr '''')]"
  using missing_version_is_rejected
    [of "\<lparr>arg_version = None, arg_channel = Some ''beta'', arg_min_version = None,
      arg_changelog = None, arg_bundle_dir = None, arg_output = None\<rparr>"
      "''2026-11-03''" "{''update-manifest.json''}"]
    missing_version_is_rejected
    [of "\<lparr>arg_version = Some ''0.2.0'', arg_channel = None, arg_min_version = None,
      arg_changelog = None, arg_bundle_dir = None, arg_output = Some ''m.json''\<rparr>"
      "''2026-11-03''" "{''m.json''}" "''m.json''"
      "[(''version'', JStr ''0.2.0''),
           (''channel'', JStr ''stable''),
           (''release_date'', JStr ''2026-11-03''),
           (''min_supported_version'', JStr ''0.1.0''),
           (''changelog'', JList []),
           (''artifacts'', JObj []),
           (''signature'', JStr '''')]"
      "''''" None None None None
      "[(''version'', JStr ''''),
           (''channel'', JStr ''stable''),
           (''release_date'', JStr ''2026-11-03''),
           (''min_supported_version'', JStr ''0.1.0''),
           (''changelog'', JList []),
           (''artifacts'', JObj []),
           (''signature'', JStr '''')]"]
  by (simp add: main_def generate_manifest_def)

text \<open>
  Claim C9. Optional inputs that are omitted take their defaults: channel \<open>stable\<close>,
  minimum supported version \<open>0.1.0\<close> and an empty changelog, both when the Assembler is
  called with the version alone and when the command line gives only \<open>--version\<close>.
  Optional inputs that are supplied appear in the manifest as supplied.
\<close>

theorem optional_inputs_and_defaults:
  "(generate_manifest utcnow version None None None bundle_dir = Inr m1 \<longrightarrow>
      map_of m1 ''channel'' = Some (JStr ''stable'')
      \<and> map_of m1 ''min_supported_version'' = Some (JStr ''0.1.0'')
      \<and> map_of m1 ''changelog'' = Some (JList []))
   \<and> (generate_manifest utcnow version (Some channel) (Some min_version) (Some changelog) bundle_dir
        = Inr m2 \<longrightarrow>
      map_of m2 ''channel'' = Some (JStr channel)
      \<and> map_of m2 ''min_supported_version'' = Some (JStr min_version)
      \<and> map_of m2 ''changelog'' = Some (JList (map JStr changelog)))
   \<and> (main utcnow writable
         \<lparr>arg_version = Some version, arg_channel = None, arg_min_version = None,
          arg_changelog = None, arg_bundle_dir = bundle_dir, arg_output = out_path\<rparr>
        = Inr (p3, m3) \<longrightarrow>
      map_of m3 ''channel'' = Some (JStr ''stable'')
      \<and> map_of m3 ''min_supported_version'' = Some (JStr ''0.1.0'')
      \<and> map_of m3 ''changelog'' = Some (JList []))
   \<and> (main utcnow writable
         \<lparr>arg_version = Some version, arg_channel = Some channel,
          arg_min_version = Some min_version, arg_changelog = Some changelog,
          arg_bundle_dir = bundle_dir, arg_output = out_path\<rparr>
        = Inr (p4, m4) \<longrightarrow>
      map_of m4 ''channel'' = Some (JStr channel)
      \<and> map_of m4 ''min_supported_version'' = Some (JStr min_version)
      \<and> map_of m4 ''changelog'' = Some (JList (map JStr changelog)))"
proof (intro conjI impI)
  assume g: "generate_manifest utcnow version None None None bundle_dir = Inr m1"
  from manifest_fields(2) [OF g] show "map_of m1 ''channel'' = Some (JStr ''stable'')" by simp
  from manifest_fields(3) [OF g] show "map_of m1 ''min_supported_version'' = Some (JStr ''0.1.0'')"
    by simp
  from manifest_fields(4) [OF g] show "map_of m1 ''changelog'' = Some (JList [])" by simp
next
  assume g: "generate_manifest utcnow version (Some channel) (Some min_version) (Some changelog)
               bundle_dir = Inr m2"
  from manifest_fields(2) [OF g] show "map_of m2 ''channel'' = Some (JStr channel)" by simp
  from manifest_fields(3) [OF g] show "map_of m2 ''min_supported_version'' = Some (JStr min_version)"
    by simp
  from manifest_fields(4) [OF g] show "map_of m2 ''changelog'' = Some (JList (map JStr changelog))"
    by simp
next
  assume "main utcnow writable
         \<lparr>arg_version = Some version, arg_channel = None, arg_min_version = None,
          arg_changelog = None, arg_bundle_dir = bundle_dir, arg_output = out_path\<rparr>
        = Inr (p3, m3)"
  then have g: "generate_manifest utcnow version (Some ''stable'') (Some ''0.1.0'') None bundle_dir
                  = Inr m3"
    by (elim main_Inr) simp
  from manifest_fields(2) [OF g] show "map_of m3 ''channel'' = Some (JStr ''stable'')" by simp
  from manifest_fields(3) [OF g] show "map_of m3 ''min_supported_version'' = Some (JStr ''0.1.0'')"
    by simp
  from manifest_fields(4) [OF g] show "map_of m3 ''changelog'' = Some (JList [])" by simp
next
  assume "main utcnow writable
         \<lparr>arg_version = Some version, arg_channel = Some channel,
          arg_min_version = Some min_version, arg_changelog = Some changelog,
          arg_bundle_dir = bundle_dir, arg_output = out_path\<rparr>
        = Inr (p4, m4)"
  then have g: "generate_manifest utcnow version (Some channel) (Some min_version)
                  (Some changelog) bundle_dir = Inr m4"
    by (elim main_Inr) simp
  from manifest_fields(2) [OF g] show "map_of m4 ''channel'' = Some (JStr channel)" by simp
  from manifest_fields(3) [OF g] show "map_of m4 ''min_supported_version'' = Some (JStr min_version)"
    by simp
  from manifest_fields(4) [OF g] show "map_of m4 ''changelog'' = Some (JList (map JStr changelog))"
    by simp
qed

theorem optional_inputs_and_defaults_witness:
  "generate_manifest ''2026-11-03'' ''0.2.0'' None None None None
     = Inr [(''version'', JStr ''0.2.0''), (''channel'', JStr ''stable''),
            (''release_date'', JStr ''2026-11-03''), (''min_supported_version'', JStr ''0.1.0''),
            (''changelog'', JList []), (''artifacts'', JObj []), (''signature'', JStr '''')]
   \<and> generate_manifest ''2026-11-03'' ''0.2.0'' (Some ''beta'') (Some ''0.1.5'')
       (Some [''Fix A'', ''Fix B'']) None
     = Inr [(''version'', JStr ''0.2.0''), (''channel'', JStr ''beta''),
            (''release_date'', JStr ''2026-11-03''), (''min_supported_version'', JStr ''0.1.5''),
            (''changelog'', JList [JStr ''Fix A'', JStr ''Fix B'']), (''artifacts'', JObj []),
            (''signature'', JStr '''')]
   \<and> main ''2026-11-03'' {''update-manifest.json''}
         \<lparr>arg_version = Some ''0.2.0'', arg_channel = None, arg_min_version = None,
          arg_changelog = None, arg_bundle_dir = None, arg_output = None\<rparr>
     = Inr (''update-manifest.json'',
            [(''version'', JStr ''0.2.0''), (''channel'', JStr ''stable''),
             (''release_date'', JStr ''2026-11-03''), (''min_supported_version'', JStr ''0.1.0''),
             (''changelog'', JList []), (''artifacts'', JObj []), (''signature'', JStr '''')])
   \<and> main ''2026-11-03'' {''update-manifest.json''}
         \<lparr>arg_version = Some ''0.2.0'', arg_channel = Some ''beta'',
          arg_min_version = Some ''0.1.5'', arg_changelog = Some [''Fix A'', ''Fix B''],
          arg_bundle_dir = None, arg_output = None\<rparr>
     = Inr (''update-manifest.json'',
            [(''version'', JStr ''0.2.0''), (''channel'', JStr ''beta''),
             (''release_date'', JStr ''2026-11-03''), (''min_supported_version'', JStr ''0.1.5''),
             (''changelog'', JList [JStr ''Fix A'', JStr ''Fix B'']), (''artifacts'', JObj []),
             (''signature'', JStr '''')])"
  using optional_inputs_and_defaults
    [where utcnow = "''2026-11-03''" and version = "''0.2.0''" and bundle_dir = None
       and channel = "''beta''" and min_version = "''0.1.5''"
       and changelog = "[''Fix A'', ''Fix B'']"
       and writable = "{''update-manifest.json''}" and out_path = None
       and ?p3.0 = "''update-manifest.json''" and ?p4.0 = "''update-manifest.json''"
       and ?m1.0 = "[(''version'', JStr ''0.2.0''), (''channel'', JStr ''stable''),
            (''release_date'', JStr ''2026-11-03''), (''min_supported_version'', JStr ''0.1.0''),
            (''changelog'', JList []), (''artifacts'', JObj []), (''signature'', JStr '''')]"
       and ?m3.0 = "[(''version'', JStr ''0.2.0''), (''channel'', JStr ''stable''),
            (''release_date'', JStr ''2026-11-03''), (''min_supported_version'', JStr ''0.1.0''),
            (''changelog'', JList []), (''artifacts'', JObj []), (''signature'', JStr '''')]"
       and ?m2.0 = "[(''version'', JStr ''0.2.0''), (''channel'', JStr ''beta''),
            (''release_date'', JStr ''2026-11-03''), (''min_supported_version'', JStr ''0.1.5''),
            (''changelog'', JList [JStr ''Fix A'', JStr ''Fix B'']), (''artifacts'', JObj []),
            (''signature'', JStr '''')]"
       and ?m4.0 = "[(''version'', JStr ''0.2.0''), (''channel'', JStr ''beta''),
            (''release_date'', JStr ''2026-11-03''), (''min_supported_version'', JStr ''0.1.5''),
            (''changelog'', JList [JStr ''Fix A'', JStr ''Fix B'']), (''artifacts'', JObj []),
            (''signature'', JStr '''')]"]
  by (simp add: main_def generate_manifest_def)

text \<open>
  Claim C10. \<open>changelog or []\<close> treats the empty list as it treats \<open>None\<close>: the two
  calls return the same manifest, whose changelog is the empty list. A changelog that is
  not empty is adopted unchanged and in order.
\<close>

theorem falsy_changelog_is_empty:
  "generate_manifest utcnow version channel min_version (Some []) bundle_dir
     = generate_manifest utcnow version channel min_version None bundle_dir
   \<and> (generate_manifest utcnow version channel min_version (Some []) bundle_dir = Inr m0 \<longrightarrow>
        map_of m0 ''changelog'' = Some (JList []))
   \<and> (entries \<noteq> [] \<and>
      generate_manifest utcnow version channel min_version (Some entries) bundle_dir = Inr m1 \<longrightarrow>
        map_of m1 ''changelog'' = Some (JList (map JStr entries)))"
proof (intro conjI impI)
  show "generate_manifest utcnow version channel min_version (Some []) bundle_dir
     = generate_manifest utcnow version channel min_version None bundle_dir"
    by (simp add: generate_manifest_def)
next
  assume g: "generate_manifest utcnow version channel min_version (Some []) bundle_dir = Inr m0"
  from manifest_fields(4) [OF g] show "map_of m0 ''changelog'' = Some (JList [])" by simp
next
  assume "entries \<noteq> [] \<and>
      generate_manifest utcnow version channel min_version (Some entries) bundle_dir = Inr m1"
  then have g: "generate_manifest utcnow version channel min_version (Some entries) bundle_dir = Inr m1"
    by simp
  from manifest_fields(4) [OF g] show "map_of m1 ''changelog'' = Some (JList (map JStr entries))"
    by simp
qed

theorem falsy_changelog_is_empty_witness:
  "generate_manifest ''2026-11-03'' ''0.2.0'' None None (Some []) None
     = generate_manifest ''2026-11-03'' ''0.2.0'' None None None None
   \<and> generate_manifest ''2026-11-03'' ''0.2.0'' None None (Some []) None
     = Inr [(''version'', JStr ''0.2.0''), (''channel'', JStr ''stable''),
            (''release_date'', JStr ''2026-11-03''), (''min_supported_version'', JStr ''0.1.0''),
            (''changelog'', JList []), (''artifacts'', JObj []), (''signature'', JStr '''')]
   \<and> [''Fix A'', ''Fix B''] \<noteq> ([] :: string list)
   \<and> generate_manifest ''2026-11-03'' ''0.2.0'' None None (Some [''Fix A'', ''Fix B'']) None
     = Inr [(''version'', JStr ''0.2.0''), (''channel'', JStr ''stable''),
            (''release_date'', JStr ''2026-11-03''), (''min_supported_version'', JStr ''0.1.0''),
            (''changelog'', JList [JStr ''Fix A'', JStr ''Fix B'']), (''artifacts'', JObj []),
            (''signature'', JStr '''')]"
  using falsy_changelog_is_empty
    [where utcnow = "''2026-11-03''" and version = "''0.2.0''" and channel = None
       and min_version = None and bundle_dir = None and entries = "[''Fix A'', ''Fix B'']"
       and ?m0.0 = "[(''version'', JStr ''0.2.0''), (''channel'', JStr ''stable''),
            (''release_date'', JStr ''2026-11-03''), (''min_supported_version'', JStr ''0.1.0''),
            (''changelog'', JList []), (''artifacts'', JObj []), (''signature'', JStr '''')]"
       and ?m1.0 = "[(''version'', JStr ''0.2.0''), (''channel'', JStr ''stable''),
            (''release_date'', JStr ''2026-11-03''), (''min_supported_version'', JStr ''0.1.0''),
            (''changelog'', JList [JStr ''Fix A'', JStr ''Fix B'']), (''artifacts'', JObj []),
            (''signature'', JStr '''')]"]
  by (simp add: generate_manifest_def)

end
